theory Spec2Isabelle
  imports Complex_Main "HOL-Library.AList" "HOL-Library.Log_Nat"
begin

section \<open>JavaScript values\<close>

text \<open>
  The theme engine probes its input at run time (\<open>'product' in raw.recipes\<close>,
  \<open>productRecipes.AppShell?.backgroundTreatment\<close>, object spread), so recipes are
  modelled as plain JavaScript data: JSON-like values whose objects keep their entries
  in insertion order. Numbers are exact reals: every number of the engine is a literal
  that is only carried around.
\<close>

datatype jsval =
    JUndefined
  | JNull
  | JBool bool
  | JNum real
  | JStr string
  | JArr "jsval list"
  | JObj "(string \<times> jsval) list"

datatype ErrorCode = InvalidRequest

datatype error = TypeError | McpError ErrorCode string

text \<open>Truthiness, as \<open>&&\<close>, \<open>!\<close> and \<open>if\<close> read a value.\<close>

fun truthy :: "jsval \<Rightarrow> bool" where
  "truthy JUndefined = False"
| "truthy JNull = False"
| "truthy (JBool b) = b"
| "truthy (JNum r) = (r \<noteq> 0)"
| "truthy (JStr s) = (s \<noteq> [])"
| "truthy (JArr xs) = True"
| "truthy (JObj kvs) = True"

text \<open>The decimal numeral of a natural number: the name of an array index.\<close>

definition digit_char :: "nat \<Rightarrow> char" where
  "digit_char d = ''0123456789'' ! d"

function decimal :: "nat \<Rightarrow> string" where
  "decimal n = (if n < 10 then [digit_char n] else decimal (n div 10) @ [digit_char (n mod 10)])"
  by pat_completeness auto
termination
  by (relation "measure id") auto

declare decimal.simps [simp del]

text \<open>
  The own enumerable properties that an object spread \<open>{...v}\<close> copies: the entries
  of an object, the indexed elements of an array, the indexed characters of a string,
  and nothing for \<open>undefined\<close>, \<open>null\<close>, booleans and numbers.
\<close>

fun ownEntries :: "jsval \<Rightarrow> (string \<times> jsval) list" where
  "ownEntries (JObj kvs) = kvs"
| "ownEntries (JArr xs) = zip (map decimal [0..<length xs]) xs"
| "ownEntries (JStr s) = zip (map decimal [0..<length s]) (map (\<lambda>c. JStr [c]) s)"
| "ownEntries v = []"

text \<open>
  An object literal is evaluated left to right; a property that is already there keeps
  its place and takes the new value, a new one is appended.
\<close>

datatype init = Spread jsval | Prop string jsval

fun defineProp :: "(string \<times> jsval) list \<Rightarrow> init \<Rightarrow> (string \<times> jsval) list" where
  "defineProp obj (Prop k v) = AList.update k v obj"
| "defineProp obj (Spread src) = fold (\<lambda>(k, v). AList.update k v) (ownEntries src) obj"

definition objectLiteral :: "init list \<Rightarrow> jsval" where
  "objectLiteral inits = JObj (foldl defineProp [] inits)"

text \<open>
  Member access \<open>v.k\<close> throws on \<open>undefined\<close> and \<open>null\<close>. The engine reads only
  recipe names (\<open>AppShell\<close>, \<open>Surface\<close>, \<open>SectionHeader\<close>, \<open>default\<close>, \<open>floating\<close>,
  \<open>backgroundTreatment\<close>, \<open>product\<close>, \<open>marketing\<close>), none of which a primitive or an
  array inherits, so those read as \<open>undefined\<close>.
\<close>

fun member :: "jsval \<Rightarrow> string \<Rightarrow> error + jsval" where
  "member JUndefined k = Inl TypeError"
| "member JNull k = Inl TypeError"
| "member (JObj kvs) k = Inr (case map_of kvs k of Some v \<Rightarrow> v | None \<Rightarrow> JUndefined)"
| "member v k = Inr JUndefined"

text \<open>Optional chaining \<open>v?.k\<close> never throws.\<close>

fun optMember :: "jsval \<Rightarrow> string \<Rightarrow> jsval" where
  "optMember (JObj kvs) k = (case map_of kvs k of Some v \<Rightarrow> v | None \<Rightarrow> JUndefined)"
| "optMember v k = JUndefined"

text \<open>\<open>k in v\<close> throws when \<open>v\<close> is not an object.\<close>

fun hasProperty :: "string \<Rightarrow> jsval \<Rightarrow> error + bool" where
  "hasProperty k (JObj kvs) = Inr (k \<in> set (map fst kvs))"
| "hasProperty k (JArr xs) = Inr (k \<in> set (map decimal [0..<length xs]) \<or> k = ''length'')"
| "hasProperty k v = Inl TypeError"

section \<open>Theme packs\<close>

datatype ThemeMode = Dark | Light

datatype PageContext = Product | Marketing

record TypeScaleToken =
  fontSize :: string
  fontWeight :: string
  letterSpacing :: string
  lineHeight :: string
  textTransform :: "string option"

text \<open>
  \<open>typeScale\<close> and \<open>density\<close> are walked with \<open>Object.entries\<close>, so they are kept as
  their entries in insertion order.
\<close>

record ThemeTokens =
  bg :: string
  surface :: string
  surface2 :: string
  surfaceInset :: string
  border :: string
  borderSubtle :: string
  text' :: string
  textMuted :: string
  accent :: string
  accentFg :: string
  accentMuted :: string
  accentSecondary :: string
  ring :: string
  success :: string
  successMuted :: string
  warning :: string
  warningMuted :: string
  danger :: string
  dangerMuted :: string
  shadowSurface :: string
  shadowPopover :: string
  shadowGlow :: string
  radiusSurface :: string
  radiusControl :: string
  typeScale :: "(string \<times> TypeScaleToken) list"
  density :: "(string \<times> string) list"

text \<open>
  \<open>Partial<ThemePack> & { name; mode; tokens }\<close>: name, mode and tokens are there,
  \<open>recipes\<close> is whatever the caller passed (\<open>JUndefined\<close> when the key is absent).
\<close>

record ThemePack =
  name :: string
  mode :: ThemeMode
  tokens :: ThemeTokens
  recipes :: jsval

subsection \<open>Default recipes\<close>

definition getProductMediaRecipes :: "ThemeMode \<Rightarrow> jsval" where
  "getProductMediaRecipes m = JObj [
     (''icon'', JObj [
        (''defaultSize'', JNum 16),
        (''compactSize'', JNum 14),
        (''largeSize'', JNum 24),
        (''strokeWidth'', JNum 1.5),
        (''mutedOpacity'', JStr ''0.5''),
        (''colorMode'', JStr ''currentColor'')]),
     (''placeholder'', JObj [
        (''style'', JStr ''skeleton''),
        (''shimmer'', JBool True),
        (''shimmerDirection'', JStr ''ltr''),
        (''baseColor'', JStr (if m = Dark then ''surface-inset'' else ''surface-2'')),
        (''highlightColor'', JStr (if m = Dark then ''surface'' else ''surface'')),
        (''borderRadius'', JStr ''var(--ds-radius-control)'')]),
     (''backgroundMotif'', JObj [
        (''heroMotif'', JStr ''none''),
        (''motifOpacity'', JStr ''0''),
        (''motifColor'', JStr ''border'')])]"

definition getMarketingMediaRecipes :: "ThemeMode \<Rightarrow> jsval" where
  "getMarketingMediaRecipes m = JObj [
     (''icon'', JObj [
        (''defaultSize'', JNum 20),
        (''compactSize'', JNum 16),
        (''largeSize'', JNum 32),
        (''strokeWidth'', JNum 1.5),
        (''mutedOpacity'', JStr ''0.6''),
        (''colorMode'', JStr ''accent'')]),
     (''placeholder'', JObj [
        (''style'', JStr (if m = Dark then ''blur'' else ''skeleton'')),
        (''shimmer'', JBool (m \<noteq> Dark)),
        (''shimmerDirection'', JStr ''ltr''),
        (''baseColor'', JStr (if m = Dark then ''surface/50'' else ''surface-2'')),
        (''highlightColor'', JStr (if m = Dark then ''accent/10'' else ''surface'')),
        (''borderRadius'', JStr ''var(--ds-radius-surface)'')]),
     (''backgroundMotif'', JObj [
        (''heroMotif'', JStr (if m = Dark then ''radialGlow'' else ''dots'')),
        (''motifSpacing'', JStr ''32px''),
        (''motifOpacity'', JStr (if m = Dark then ''0.15'' else ''0.08'')),
        (''motifColor'', JStr (if m = Dark then ''accent'' else ''border''))])]"

definition getProductMotionRecipes :: jsval where
  "getProductMotionRecipes = JObj [
     (''durations'', JObj [
        (''instant'', JNum 50),
        (''fast'', JNum 150),
        (''normal'', JNum 200),
        (''slow'', JNum 300),
        (''deliberate'', JNum 500)]),
     (''easings'', JObj [
        (''default'', JStr ''cubic-bezier(0.4, 0, 0.2, 1)''),
        (''enter'', JStr ''cubic-bezier(0, 0, 0.2, 1)''),
        (''exit'', JStr ''cubic-bezier(0.4, 0, 1, 1)''),
        (''spring'', JStr ''cubic-bezier(0.34, 1.56, 0.64, 1)'')]),
     (''behavior'', JObj [
        (''enabled'', JBool True),
        (''loadingStyle'', JStr ''shimmer''),
        (''hoverTransition'', JStr ''fast''),
        (''entranceAnimation'', JStr ''none''),
        (''staggerDelay'', JNum 0)])]"

definition getMarketingMotionRecipes :: jsval where
  "getMarketingMotionRecipes = JObj [
     (''durations'', JObj [
        (''instant'', JNum 50),
        (''fast'', JNum 200),
        (''normal'', JNum 300),
        (''slow'', JNum 500),
        (''deliberate'', JNum 800)]),
     (''easings'', JObj [
        (''default'', JStr ''cubic-bezier(0.4, 0, 0.2, 1)''),
        (''enter'', JStr ''cubic-bezier(0.22, 1, 0.36, 1)''),
        (''exit'', JStr ''cubic-bezier(0.4, 0, 1, 1)''),
        (''spring'', JStr ''cubic-bezier(0.34, 1.56, 0.64, 1)'')]),
     (''behavior'', JObj [
        (''enabled'', JBool True),
        (''loadingStyle'', JStr ''pulse''),
        (''hoverTransition'', JStr ''normal''),
        (''entranceAnimation'', JStr ''slideUp''),
        (''staggerDelay'', JNum 50)])]"

definition storyboardSection :: "string \<Rightarrow> string \<Rightarrow> string \<Rightarrow> bool \<Rightarrow> jsval \<Rightarrow> jsval" where
  "storyboardSection ty ident motion withMotifs signatureBlock = JObj [
     (''type'', JStr ty),
     (''id'', JStr ident),
     (''motion'', JStr motion),
     (''withMotifs'', JBool withMotifs),
     (''signatureBlock'', signatureBlock)]"

definition getMarketingNarrativeRecipes :: "ThemeMode \<Rightarrow> jsval" where
  "getMarketingNarrativeRecipes m = (let isDark = (m = Dark) in JObj [
     (''motifs'', JObj [
        (''layers'', JArr [
           JObj [
             (''type'', JStr ''grid''),
             (''opacity'', JNum (if isDark then 0.03 else 0.02)),
             (''color'', JStr (if isDark then ''accent'' else ''border'')),
             (''scale'', JNum 1),
             (''animate'', JStr ''none''),
             (''zIndex'', JNum 0)],
           JObj [
             (''type'', JStr ''glowField''),
             (''opacity'', JNum (if isDark then 0.15 else 0.08)),
             (''color'', JStr ''accent''),
             (''blur'', JNum 120),
             (''scale'', JNum 1.5),
             (''animate'', JStr ''breathe''),
             (''zIndex'', JNum 1)],
           JObj [
             (''type'', JStr ''noise''),
             (''opacity'', JNum (if isDark then 0.02 else 0.015)),
             (''color'', JStr ''text''),
             (''scale'', JNum 1),
             (''animate'', JStr ''none''),
             (''zIndex'', JNum 2)]]),
        (''intensity'', JNum 1),
        (''audienceOverrides'', JObj [
           (''hotel-owner'', JArr [
              JObj [
                (''type'', JStr ''glowField''),
                (''opacity'', JNum (if isDark then 0.18 else 0.1)),
                (''color'', JStr ''accent'')]]),
           (''developer'', JArr [
              JObj [
                (''type'', JStr ''grid''),
                (''opacity'', JNum (if isDark then 0.05 else 0.03))],
              JObj [
                (''type'', JStr ''signalPaths''),
                (''opacity'', JNum (if isDark then 0.08 else 0.04)),
                (''color'', JStr ''accent'')]])])]),
     (''storyboard'', JObj [
        (''sections'', JArr [
           storyboardSection ''hero'' ''hero'' ''fadeUp'' True (JStr ''SignalPathGraphic''),
           storyboardSection ''narrative2'' ''narrative'' ''fadeUp'' False JNull,
           storyboardSection ''proof3'' ''proof'' ''fadeUp'' False JNull,
           storyboardSection ''banner'' ''metrics'' ''slideIn'' False (JStr ''MetricRibbon''),
           storyboardSection ''stackedCards'' ''cards'' ''fadeUp'' False (JStr ''StackedCards''),
           storyboardSection ''cta'' ''cta'' ''fadeUp'' True JNull]),
        (''audienceOverrides'', JObj [
           (''hotel-owner'', JArr (map JStr
              [''hero'', ''narrative'', ''metrics'', ''proof'', ''cards'', ''cta''])),
           (''developer'', JArr (map JStr
              [''hero'', ''proof'', ''narrative'', ''cards'', ''metrics'', ''cta'']))])]),
     (''signatureBlocks'', JObj [
        (''signalPath'', JBool True),
        (''stackedCards'', JBool True),
        (''metricRibbon'', JBool True),
        (''signalPathConfig'', JObj [
           (''strokeColor'', JStr ''accent''),
           (''strokeOpacity'', JNum (if isDark then 0.4 else 0.25)),
           (''strokeWidth'', JNum 1.5),
           (''nodeColor'', JStr ''accent''),
           (''nodeGlow'', JBool isDark),
           (''blur'', JNum (if isDark then 8 else 4)),
           (''gradient'', JObj [
              (''from'', JStr ''accent''),
              (''to'', JStr ''accent-secondary''),
              (''direction'', JStr ''135deg'')]),
           (''animateOnScroll'', JBool True),
           (''complexity'', JStr ''medium'')]),
        (''stackedCardsConfig'', JObj [
           (''rotationRange'', JNum 6),
           (''shadowDepth'', JStr (if isDark then ''dramatic'' else ''medium'')),
           (''borderStyle'', JStr ''subtle''),
           (''hoverEffect'', JStr ''lift''),
           (''visibleCards'', JNum 3),
           (''stackDirection'', JStr ''right'')]),
        (''metricRibbonConfig'', JObj [
           (''background'', JStr (if isDark then ''surface'' else ''accent-muted'')),
           (''separator'', JStr ''line''),
           (''valueStyle'', JStr (if isDark then ''gradient'' else ''bold'')),
           (''labelStyle'', JStr ''muted''),
           (''count'', JNum 4)])]),
     (''motionBindings'', JObj [
        (''hero'', JObj [
           (''entrance'', JStr ''fadeUp''),
           (''motifAnimation'', JStr ''breathe'')]),
        (''features'', JObj [
           (''entrance'', JStr ''stagger''),
           (''staggerDelay'', JNum 100)]),
        (''signatureBlocks'', JObj [
           (''signalPath'', JStr ''draw''),
           (''stackedCards'', JStr ''cascade''),
           (''metricRibbon'', JStr ''countUp'')])])])"

subsection \<open>Normalization\<close>

text \<open>
  The guard \<open>raw.recipes && 'product' in raw.recipes && 'marketing' in raw.recipes\<close>,
  short-circuiting from the left.
\<close>

definition alreadyCurrent :: "jsval \<Rightarrow> error + bool" where
  "alreadyCurrent r =
     (if \<not> truthy r then Inr False
      else case hasProperty ''product'' r of
             Inl e \<Rightarrow> Inl e
           | Inr False \<Rightarrow> Inr False
           | Inr True \<Rightarrow> hasProperty ''marketing'' r)"

definition marketingRecipes :: "ThemeMode \<Rightarrow> ThemeTokens \<Rightarrow> jsval \<Rightarrow> jsval \<Rightarrow> jsval \<Rightarrow> jsval" where
  "marketingRecipes m toks appShell surfaceRecipes sectionHeader = objectLiteral [
     Prop ''AppShell'' (objectLiteral [
        Spread appShell,
        Prop ''backgroundTreatment''
          (JStr (if optMember appShell ''backgroundTreatment'' = JStr ''chronicle''
                 then ''chronicle'' else ''none''))]),
     Prop ''Surface'' (objectLiteral [
        Prop ''default'' (objectLiteral [
           Spread (optMember surfaceRecipes ''default''),
           Prop ''border'' (JBool False),
           Prop ''gradient'' (JBool True)]),
        Prop ''hero'' (objectLiteral [
           Prop ''border'' (JBool False),
           Prop ''borderOpacity'' (JStr ''0''),
           Prop ''shadow'' (JBool False),
           Prop ''gradient'' (JBool True),
           Prop ''gradientDirection'' (JStr ''to bottom''),
           Prop ''background'' (JStr ''transparent'')]),
        Prop ''feature'' (objectLiteral [
           Spread (optMember surfaceRecipes ''floating''),
           Prop ''gradient'' (JBool False)])]),
     Prop ''Hero'' (objectLiteral [
        Prop ''titleSize'' (JStr ''3.5rem''),
        Prop ''titleWeight'' (JStr ''700''),
        Prop ''titleTracking'' (JStr ''-0.03em''),
        Prop ''titleMaxWidth'' (JStr ''800px''),
        Prop ''subtitleSize'' (JStr ''1.25rem''),
        Prop ''subtitleOpacity'' (JStr ''0.7''),
        Prop ''subtitleMaxWidth'' (JStr ''600px''),
        Prop ''spacing'' (objectLiteral [
           Prop ''paddingY'' (JStr ''80px''),
           Prop ''gap'' (JStr ''24px'')]),
        Prop ''accentGradient'' (JBool (m = Dark))]),
     Prop ''SectionHeader'' (objectLiteral [
        Spread sectionHeader,
        Prop ''style'' (JStr ''centered''),
        Prop ''titleSize'' (JStr ''2.5rem''),
        Prop ''spacing'' (objectLiteral [
           Prop ''top'' (JStr ''0''),
           Prop ''bottom'' (JStr ''48px'')])]),
     Prop ''FeatureCard'' (objectLiteral [
        Prop ''style'' (JStr (if m = Dark then ''glass'' else ''elevated'')),
        Prop ''iconStyle'' (JStr ''accent''),
        Prop ''hoverEffect'' (JStr ''lift'')]),
     Prop ''AccentUsage'' (objectLiteral [
        Prop ''gradientAllowed'' (JBool True),
        Prop ''textEmphasisAllowed'' (JBool True),
        Prop ''backgroundGradient''
          (JStr (if m = Dark
                 then ''linear-gradient(135deg, hsl('' @ accent toks @ '' / 0.15), transparent)''
                 else ''linear-gradient(135deg, hsl('' @ accentMuted toks @ ''), transparent)''))]),
     Prop ''LayoutRhythm'' (objectLiteral [
        Prop ''sectionGap'' (JStr ''120px''),
        Prop ''heroBottomGap'' (JStr ''80px''),
        Prop ''featureGap'' (JStr ''32px'')]),
     Prop ''media'' (getMarketingMediaRecipes m),
     Prop ''motion'' getMarketingMotionRecipes,
     Spread (getMarketingNarrativeRecipes m)]"

text \<open>
  \<open>normalizeThemePack\<close>. The legacy branch reads \<open>productRecipes.AppShell\<close>,
  \<open>productRecipes.Surface\<close> and \<open>productRecipes.SectionHeader\<close> without optional
  chaining, in this order; each read throws when \<open>productRecipes\<close> is \<open>undefined\<close>
  or \<open>null\<close>.
\<close>

definition normalizeThemePack :: "ThemePack \<Rightarrow> error + ThemePack" where
  "normalizeThemePack raw =
     (case alreadyCurrent (recipes raw) of
        Inl e \<Rightarrow> Inl e
      | Inr True \<Rightarrow> Inr raw
      | Inr False \<Rightarrow>
          (let productRecipes = recipes raw;
               fullProductRecipes = objectLiteral [
                  Spread productRecipes,
                  Prop ''media'' (getProductMediaRecipes (mode raw)),
                  Prop ''motion'' getProductMotionRecipes]
           in case member productRecipes ''AppShell'' of
                Inl e \<Rightarrow> Inl e
              | Inr appShell \<Rightarrow>
             (case member productRecipes ''Surface'' of
                Inl e \<Rightarrow> Inl e
              | Inr surfaceRecipes \<Rightarrow>
             (case member productRecipes ''SectionHeader'' of
                Inl e \<Rightarrow> Inl e
              | Inr sectionHeader \<Rightarrow>
                  Inr \<lparr> name = name raw,
                        mode = mode raw,
                        tokens = tokens raw,
                        recipes = objectLiteral [
                           Prop ''product'' fullProductRecipes,
                           Prop ''marketing''
                             (marketingRecipes (mode raw) (tokens raw)
                                appShell surfaceRecipes sectionHeader)] \<rparr>))))"

subsection \<open>Context resolution\<close>

text \<open>
  \<open>ThemeEngine.getRecipesForContext\<close>: \<open>!recipes.product && !recipes.marketing\<close>
  tests the two members for truthiness, not the keys for presence.
\<close>

definition getRecipesForContext :: "ThemePack \<Rightarrow> PageContext \<Rightarrow> error + jsval" where
  "getRecipesForContext theme context =
     (let rs = recipes theme
      in case member rs ''product'' of
           Inl e \<Rightarrow> Inl e
         | Inr p \<Rightarrow>
        (case member rs ''marketing'' of
           Inl e \<Rightarrow> Inl e
         | Inr mk \<Rightarrow>
             if \<not> truthy p \<and> \<not> truthy mk then Inr rs
             else Inr (if context = Marketing then mk else p)))"

section \<open>Applying a theme to the document\<close>

text \<open>ASCII case mapping and white space, as \<open>toLowerCase\<close> and \<open>\s\<close> read them.\<close>

definition isUpper :: "char \<Rightarrow> bool" where
  "isUpper c = (65 \<le> (of_char c :: nat) \<and> (of_char c :: nat) \<le> 90)"

definition toLower :: "char \<Rightarrow> char" where
  "toLower c = (if isUpper c then char_of ((of_char c :: nat) + 32) else c)"

definition toLowerCase :: "string \<Rightarrow> string" where
  "toLowerCase s = map toLower s"

definition isSpace :: "char \<Rightarrow> bool" where
  "isSpace c = ((of_char c :: nat) \<in> {9, 10, 11, 12, 13, 32})"

text \<open>\<open>s.replace(/\s+/g, '-')\<close>: every run of white space becomes one hyphen.\<close>

fun hyphenate :: "bool \<Rightarrow> string \<Rightarrow> string" where
  "hyphenate inRun [] = []"
| "hyphenate inRun (c # cs) =
     (if isSpace c then (if inRun then hyphenate True cs else CHR ''-'' # hyphenate True cs)
      else c # hyphenate False cs)"

definition themeKey :: "string \<Rightarrow> string" where
  "themeKey n = hyphenate False (toLowerCase n)"

text \<open>\<open>key.replace(/([A-Z])/g, '-$1').toLowerCase()\<close>.\<close>

definition kebabKey :: "string \<Rightarrow> string" where
  "kebabKey key = toLowerCase (concat (map (\<lambda>c. if isUpper c then [CHR ''-'', c] else [c]) key))"

definition modeName :: "ThemeMode \<Rightarrow> string" where
  "modeName m = (case m of Dark \<Rightarrow> ''dark'' | Light \<Rightarrow> ''light'')"

definition contextName :: "PageContext \<Rightarrow> string" where
  "contextName c = (case c of Product \<Rightarrow> ''product'' | Marketing \<Rightarrow> ''marketing'')"

text \<open>
  The surface is the root element: its attributes, its class list and its inline style,
  a store of named parameters in declaration order. \<open>setProperty\<close> writes a parameter:
  one that is already declared keeps its place and takes the new value, a new one is
  appended. (What CSSOM does beyond that, such as dropping a declaration whose new
  value is the empty string, is the surface's business and not modelled.)
\<close>

record Element =
  attributes :: "(string \<times> string) list"
  classList :: "string list"
  style :: "(string \<times> string) list"

definition setAttribute :: "string \<Rightarrow> string \<Rightarrow> Element \<Rightarrow> Element" where
  "setAttribute k v el = el\<lparr>attributes := AList.update k v (attributes el)\<rparr>"

definition classListAdd :: "string \<Rightarrow> Element \<Rightarrow> Element" where
  "classListAdd c el = (if c \<in> set (classList el) then el else el\<lparr>classList := classList el @ [c]\<rparr>)"

definition classListRemove :: "string \<Rightarrow> Element \<Rightarrow> Element" where
  "classListRemove c el = el\<lparr>classList := filter (\<lambda>x. x \<noteq> c) (classList el)\<rparr>"

definition setProperty :: "string \<times> string \<Rightarrow> (string \<times> string) list \<Rightarrow> (string \<times> string) list" where
  "setProperty kv st = AList.update (fst kv) (snd kv) st"

datatype event = CustomEvent string ThemePack PageContext

text \<open>
  The engine's fields together with the environment it runs in: \<open>documentElement\<close> is
  \<open>None\<close> where \<open>typeof document === 'undefined'\<close>, \<open>window\<close> is \<open>None\<close> where
  \<open>typeof window === 'undefined'\<close> and otherwise holds the events dispatched so far.
\<close>

record World =
  currentTheme :: "ThemePack option"
  currentContext :: PageContext
  documentElement :: "Element option"
  window :: "event list option"
  console :: "string list"

text \<open>The \<open>setProperty\<close> calls of \<open>applyTheme\<close>, in the order the source makes them.\<close>

definition typeScaleParameters :: "string \<times> TypeScaleToken \<Rightarrow> (string \<times> string) list" where
  "typeScaleParameters e = (case e of (key, v) \<Rightarrow>
     [(''--ds-type-'' @ key @ ''-size'', fontSize v),
      (''--ds-type-'' @ key @ ''-weight'', fontWeight v),
      (''--ds-type-'' @ key @ ''-tracking'', letterSpacing v),
      (''--ds-type-'' @ key @ ''-leading'', lineHeight v)] @
     (case textTransform v of
        None \<Rightarrow> []
      | Some t \<Rightarrow> if t \<noteq> [] then [(''--ds-type-'' @ key @ ''-transform'', t)] else []))"

definition densityParameter :: "string \<times> string \<Rightarrow> string \<times> string" where
  "densityParameter e = (case e of (key, v) \<Rightarrow> (''--ds-density-'' @ kebabKey key, v))"

definition styleParameters :: "ThemeTokens \<Rightarrow> (string \<times> string) list" where
  "styleParameters t =
     [(''--ds-bg'', bg t),
      (''--ds-surface'', surface t),
      (''--ds-surface-2'', surface2 t),
      (''--ds-surface-inset'', surfaceInset t),
      (''--ds-border'', border t),
      (''--ds-border-subtle'', borderSubtle t),
      (''--ds-text'', text' t),
      (''--ds-text-muted'', textMuted t),
      (''--ds-accent'', accent t),
      (''--ds-accent-foreground'', accentFg t),
      (''--ds-accent-muted'', accentMuted t),
      (''--ds-accent-secondary'', accentSecondary t),
      (''--ds-ring'', ring t),
      (''--ds-success'', success t),
      (''--ds-success-muted'', successMuted t),
      (''--ds-warning'', warning t),
      (''--ds-warning-muted'', warningMuted t),
      (''--ds-danger'', danger t),
      (''--ds-danger-muted'', dangerMuted t),
      (''--ds-shadow-surface'', shadowSurface t),
      (''--ds-shadow-popover'', shadowPopover t),
      (''--ds-shadow-glow'', shadowGlow t),
      (''--ds-radius-surface'', radiusSurface t),
      (''--ds-radius-control'', radiusControl t)]
     @ concat (map typeScaleParameters (typeScale t))
     @ map densityParameter (density t)"

definition applyToRoot :: "ThemePack \<Rightarrow> PageContext \<Rightarrow> Element \<Rightarrow> Element" where
  "applyToRoot theme context el =
     (let r1 = setAttribute ''data-theme'' (themeKey (name theme)) el;
          r2 = setAttribute ''data-theme-mode'' (modeName (mode theme)) r1;
          r3 = setAttribute ''data-context'' (contextName context) r2;
          r4 = (if mode theme = Dark then classListAdd ''dark'' r3 else classListRemove ''dark'' r3)
      in r4\<lparr>style := fold setProperty (styleParameters (tokens theme)) (style r4)\<rparr>)"

definition appliedMessage :: "ThemePack \<Rightarrow> PageContext \<Rightarrow> string" where
  "appliedMessage theme context =
     ''[TasteEngine] Applied: '' @ name theme @ '' ('' @ modeName (mode theme) @ '' mode, ''
       @ contextName context @ '' context)''"

text \<open>
  \<open>ThemeEngine.applyTheme\<close> (the caller passes the context; the source's default for a
  missing one is \<open>'product'\<close>). Without a document it returns right after recording the
  theme and the context; without a window it dispatches nothing.
\<close>

definition applyTheme :: "ThemePack \<Rightarrow> PageContext \<Rightarrow> World \<Rightarrow> World" where
  "applyTheme theme context w =
     (let w1 = w\<lparr>currentTheme := Some theme, currentContext := context\<rparr>
      in case documentElement w1 of
           None \<Rightarrow> w1
         | Some el \<Rightarrow>
             (let w2 = w1\<lparr>documentElement := Some (applyToRoot theme context el)\<rparr>;
                  w3 = (case window w2 of
                          None \<Rightarrow> w2
                        | Some evs \<Rightarrow>
                            w2\<lparr>window := Some (evs @ [CustomEvent ''themechange'' theme context])\<rparr>)
              in w3\<lparr>console := console w3 @ [appliedMessage theme context]\<rparr>))"

text \<open>What an observer of the surface reads off a world.\<close>

definition styleOf :: "World \<Rightarrow> (string \<times> string) list" where
  "styleOf w = (case documentElement w of None \<Rightarrow> [] | Some el \<Rightarrow> style el)"

definition notifications :: "World \<Rightarrow> event list" where
  "notifications w = (case window w of None \<Rightarrow> [] | Some evs \<Rightarrow> evs)"

section \<open>Numbers\<close>

text \<open>
  A JavaScript number is an IEEE 754 binary64 value: a finite double, an infinity or
  \<open>NaN\<close>. A finite double is kept as the real number it denotes. The sign of a zero
  is not kept: the functions modelled below never divide by a zero that could be
  negative (the one divisor, the total weight, is a left-to-right sum starting from
  \<open>0\<close>, and such a sum is never \<open>-0\<close>), and \<open>Math.max(0, -0)\<close> is \<open>0\<close>.
\<close>

datatype double = Fin real | PosInf | NegInf | NaN

text \<open>The binary exponent of a number other than zero: \<open>2 ^ e \<le> |x| < 2 ^ (e + 1)\<close>.\<close>

definition exponentOf :: "real \<Rightarrow> int" where
  "exponentOf x =
     (if 1 \<le> \<bar>x\<bar> then bitlen \<lfloor>\<bar>x\<bar>\<rfloor> - 1 else - bitlen (\<lceil>1 / \<bar>x\<bar>\<rceil> - 1))"

text \<open>The nearest integer, the even one on a tie.\<close>

definition roundHalfEven :: "real \<Rightarrow> int" where
  "roundHalfEven m =
     (let f = \<lfloor>m\<rfloor>; d = m - of_int f
      in if d < 1 / 2 then f else if 1 / 2 < d then f + 1 else if even f then f else f + 1)"

text \<open>
  Rounding a real result to binary64, to nearest and to even on a tie: doubles of
  exponent \<open>e\<close> are the multiples of \<open>2 ^ (e - 52)\<close>, below \<open>2 ^ (-1022)\<close> (subnormal)
  the multiples of \<open>2 ^ (-1074)\<close>, and a result that rounds to \<open>2 ^ 1024\<close> or more
  overflows to an infinity.
\<close>

definition round64 :: "real \<Rightarrow> double" where
  "round64 x =
     (if x = 0 then Fin 0
      else let e = max (exponentOf x) (- 1022);
               q = 2 powi (e - 52);
               y = of_int (roundHalfEven (\<bar>x\<bar> / q)) * q
           in if 2 powi 1024 \<le> y then (if 0 < x then PosInf else NegInf)
              else Fin (if 0 < x then y else - y))"

text \<open>A decimal literal of the source denotes the double nearest to it.\<close>

definition lit :: "real \<Rightarrow> double" where
  "lit x = round64 x"

text \<open>The operators \<open>+\<close>, \<open>*\<close>, \<open>/\<close> and \<open>>\<close> on numbers.\<close>

fun fadd :: "double \<Rightarrow> double \<Rightarrow> double" where
  "fadd (Fin a) (Fin b) = round64 (a + b)"
| "fadd NaN y = NaN"
| "fadd x NaN = NaN"
| "fadd PosInf NegInf = NaN"
| "fadd NegInf PosInf = NaN"
| "fadd PosInf y = PosInf"
| "fadd x PosInf = PosInf"
| "fadd NegInf y = NegInf"
| "fadd x NegInf = NegInf"

definition infinityOf :: "bool \<Rightarrow> double" where
  "infinityOf positive = (if positive then PosInf else NegInf)"

fun fmul :: "double \<Rightarrow> double \<Rightarrow> double" where
  "fmul (Fin a) (Fin b) = round64 (a * b)"
| "fmul NaN y = NaN"
| "fmul x NaN = NaN"
| "fmul (Fin a) PosInf = (if a = 0 then NaN else infinityOf (0 < a))"
| "fmul (Fin a) NegInf = (if a = 0 then NaN else infinityOf (a < 0))"
| "fmul PosInf (Fin b) = (if b = 0 then NaN else infinityOf (0 < b))"
| "fmul NegInf (Fin b) = (if b = 0 then NaN else infinityOf (b < 0))"
| "fmul PosInf PosInf = PosInf"
| "fmul PosInf NegInf = NegInf"
| "fmul NegInf PosInf = NegInf"
| "fmul NegInf NegInf = PosInf"

fun fdiv :: "double \<Rightarrow> double \<Rightarrow> double" where
  "fdiv (Fin a) (Fin b) =
     (if b = 0 then (if a = 0 then NaN else infinityOf (0 < a)) else round64 (a / b))"
| "fdiv NaN y = NaN"
| "fdiv x NaN = NaN"
| "fdiv (Fin a) PosInf = Fin 0"
| "fdiv (Fin a) NegInf = Fin 0"
| "fdiv PosInf (Fin b) = infinityOf (0 \<le> b)"
| "fdiv NegInf (Fin b) = infinityOf (b < 0)"
| "fdiv PosInf y = NaN"
| "fdiv NegInf y = NaN"

fun fgt :: "double \<Rightarrow> double \<Rightarrow> bool" where
  "fgt (Fin a) (Fin b) = (b < a)"
| "fgt NaN y = False"
| "fgt x NaN = False"
| "fgt PosInf PosInf = False"
| "fgt PosInf y = True"
| "fgt x PosInf = False"
| "fgt NegInf y = False"
| "fgt x NegInf = True"

text \<open>\<open>Math.min\<close> and \<open>Math.max\<close> of two numbers: \<open>NaN\<close> when either is \<open>NaN\<close>.\<close>

definition mathMin :: "double \<Rightarrow> double \<Rightarrow> double" where
  "mathMin a b = (if a = NaN \<or> b = NaN then NaN else if fgt a b then b else a)"

definition mathMax :: "double \<Rightarrow> double \<Rightarrow> double" where
  "mathMax a b = (if a = NaN \<or> b = NaN then NaN else if fgt b a then b else a)"

section \<open>Tuners\<close>

text \<open>
  A tuner state is an object with the five keys of \<open>DEFAULT_TUNERS\<close>; \<open>setTuner\<close>
  writes one of them by computed key, so the state is a function of the key.
  \<open>setTuner\<close> takes any number and stores what the clamp returns, so the state it
  writes holds numbers. Serialization is modelled on states whose values are finite,
  each kept as the real number it denotes.
\<close>

datatype TunerKey = Abstraction | Density | Motion | Contrast | Narrative

type_synonym AppliedTuners = "TunerKey \<Rightarrow> real"

definition DEFAULT_TUNERS :: AppliedTuners where
  "DEFAULT_TUNERS = (\<lambda>k. 0.5)"

text \<open>
  The keys in the order \<open>Object.entries\<close> walks them: the order in which
  \<open>AppliedTuners\<close> and \<open>DEFAULT_TUNERS\<close> list them, which the spread in \<open>setTuner\<close>
  keeps.
\<close>

definition tunerKeys :: "TunerKey list" where
  "tunerKeys = [Abstraction, Density, Motion, Contrast, Narrative]"

definition tunerName :: "TunerKey \<Rightarrow> string" where
  "tunerName k = (case k of
      Abstraction \<Rightarrow> ''abstraction''
    | Density \<Rightarrow> ''density''
    | Motion \<Rightarrow> ''motion''
    | Contrast \<Rightarrow> ''contrast''
    | Narrative \<Rightarrow> ''narrative'')"

text \<open>\<open>setTuner\<close>: \<open>{ ...prev, [key]: Math.max(0, Math.min(1, value)) }\<close>.\<close>

definition setTuner :: "TunerKey \<Rightarrow> double \<Rightarrow> (TunerKey \<Rightarrow> double) \<Rightarrow> (TunerKey \<Rightarrow> double)" where
  "setTuner key v prev = prev(key := mathMax (Fin 0) (mathMin (Fin 1) v))"

text \<open>
  \<open>x.toFixed(1)\<close> for a finite \<open>x\<close> below \<open>1e21\<close> in size: the sign, then the integer
  \<open>n\<close> nearest to \<open>10 * |x|\<close> (the larger one on a tie) written with one digit after
  the point.
\<close>

definition toFixed1 :: "real \<Rightarrow> string" where
  "toFixed1 x =
     (let n = nat \<lfloor>\<bar>x\<bar> * 10 + 1 / 2\<rfloor>
      in (if x < 0 then ''-'' else []) @ decimal (n div 10) @ ''.'' @ [digit_char (n mod 10)])"

text \<open>
  \<open>URLSearchParams.set\<close>: the first entry of that name takes the value and the others
  of that name go; without one, the entry is appended. \<open>get\<close> reads the first entry.
\<close>

fun searchParamsSet :: "string \<Rightarrow> string \<Rightarrow> (string \<times> string) list \<Rightarrow> (string \<times> string) list" where
  "searchParamsSet k v [] = [(k, v)]"
| "searchParamsSet k v (p # ps) =
     (if fst p = k then (k, v) # filter (\<lambda>q. fst q \<noteq> k) ps else p # searchParamsSet k v ps)"

definition searchParamsGet :: "string \<Rightarrow> (string \<times> string) list \<Rightarrow> string option" where
  "searchParamsGet k ps = map_of ps k"

text \<open>
  \<open>syncToURL\<close>, on the query parameters of \<open>window.location\<close> (\<open>None\<close> without a
  window): one \<open>set\<close> per entry of the tuner state.
\<close>

definition syncToURL :: "AppliedTuners \<Rightarrow> (string \<times> string) list option \<Rightarrow> (string \<times> string) list option" where
  "syncToURL tuners location =
     (case location of
        None \<Rightarrow> None
      | Some params \<Rightarrow>
          Some (fold (\<lambda>key. searchParamsSet (tunerName key) (toFixed1 (tuners key))) tunerKeys params))"

text \<open>
  Modelled from the spec: \<open>parseTunersFromURL\<close> (module \<open>../tuners\<close>, which the sources
  import but do not contain). The spec: "deserialize(flat mapping) -> partial
  TunerValues: inverse of serialize; unknown keys ignored; unparsable/out-of-range
  values dropped (treated as absent)". A value parses when it is a decimal numeral: an
  optional minus sign, digits, and optionally a point followed by digits.
\<close>

definition isDigit :: "char \<Rightarrow> bool" where
  "isDigit c = (48 \<le> (of_char c :: nat) \<and> (of_char c :: nat) \<le> 57)"

definition digitsValue :: "string \<Rightarrow> nat" where
  "digitsValue ds = foldl (\<lambda>acc c. 10 * acc + ((of_char c :: nat) - 48)) 0 ds"

definition parseUnsigned :: "string \<Rightarrow> real option" where
  "parseUnsigned s =
     (let ip = takeWhile isDigit s; rest = dropWhile isDigit s
      in if ip = [] then None
         else case rest of
                [] \<Rightarrow> Some (real (digitsValue ip))
              | c # fp \<Rightarrow>
                  if c = CHR ''.'' \<and> fp \<noteq> [] \<and> list_all isDigit fp
                  then Some (real (digitsValue ip) + real (digitsValue fp) / 10 ^ length fp)
                  else None)"

definition parseDecimal :: "string \<Rightarrow> real option" where
  "parseDecimal s =
     (case s of
        [] \<Rightarrow> None
      | c # cs \<Rightarrow> if c = CHR ''-'' then map_option uminus (parseUnsigned cs) else parseUnsigned s)"

definition parseTunersFromURL :: "(string \<times> string) list \<Rightarrow> TunerKey \<Rightarrow> real option" where
  "parseTunersFromURL params key =
     (case searchParamsGet (tunerName key) params of
        None \<Rightarrow> None
      | Some s \<Rightarrow>
          (case parseDecimal s of
             None \<Rightarrow> None
           | Some r \<Rightarrow> if 0 \<le> r \<and> r \<le> 1 then Some r else None))"

text \<open>A value rounded to one decimal place, the larger neighbour on a tie.\<close>

definition roundToTenth :: "real \<Rightarrow> real" where
  "roundToTenth x = real_of_int \<lfloor>x * 10 + 1 / 2\<rfloor> / 10"


section \<open>Taste blending\<close>

datatype ColorTemperature = Warm | Cool | Neutral

text \<open>A taste profile; its continuous fields are numbers.\<close>

record TasteProfile =
  abstraction :: double
  restraint :: double
  density :: double
  motion :: double
  contrast :: double
  narrative :: double
  motifPreference :: "string list"
  typographyLooseness :: double
  colorTemperature :: ColorTemperature
  surfaceComplexity :: double

definition KNOWN_REFERENCES :: "(string \<times> TasteProfile) list" where
  "KNOWN_REFERENCES = [
     (''linear'',
      \<lparr> abstraction = lit 0.7, restraint = lit 0.8, density = lit 0.4, motion = lit 0.6,
         contrast = lit 0.7, narrative = lit 0.5, motifPreference = [''gradients'', ''blur''],
         typographyLooseness = lit 0.3, colorTemperature = Cool, surfaceComplexity = lit 0.5 \<rparr>),
     (''stripe'',
      \<lparr> abstraction = lit 0.5, restraint = lit 0.7, density = lit 0.5, motion = lit 0.7,
         contrast = lit 0.6, narrative = lit 0.7, motifPreference = [''gradients'', ''mesh''],
         typographyLooseness = lit 0.4, colorTemperature = Cool, surfaceComplexity = lit 0.6 \<rparr>),
     (''vercel'',
      \<lparr> abstraction = lit 0.8, restraint = lit 0.9, density = lit 0.3, motion = lit 0.5,
         contrast = lit 0.8, narrative = lit 0.4, motifPreference = [''lines'', ''gradients''],
         typographyLooseness = lit 0.2, colorTemperature = Neutral, surfaceComplexity = lit 0.3 \<rparr>),
     (''notion'',
      \<lparr> abstraction = lit 0.3, restraint = lit 0.6, density = lit 0.6, motion = lit 0.3,
         contrast = lit 0.5, narrative = lit 0.6, motifPreference = [''illustrations''],
         typographyLooseness = lit 0.5, colorTemperature = Warm, surfaceComplexity = lit 0.4 \<rparr>),
     (''figma'',
      \<lparr> abstraction = lit 0.4, restraint = lit 0.5, density = lit 0.5, motion = lit 0.6,
         contrast = lit 0.5, narrative = lit 0.5, motifPreference = [''illustrations'', ''icons''],
         typographyLooseness = lit 0.4, colorTemperature = Warm, surfaceComplexity = lit 0.5 \<rparr>),
     (''apple'',
      \<lparr> abstraction = lit 0.6, restraint = lit 0.8, density = lit 0.3, motion = lit 0.7,
         contrast = lit 0.7, narrative = lit 0.8, motifPreference = [''photography'', ''gradients''],
         typographyLooseness = lit 0.2, colorTemperature = Neutral, surfaceComplexity = lit 0.4 \<rparr>),
     (''github'',
      \<lparr> abstraction = lit 0.4, restraint = lit 0.7, density = lit 0.6, motion = lit 0.3,
         contrast = lit 0.6, narrative = lit 0.4, motifPreference = [''icons'', ''illustrations''],
         typographyLooseness = lit 0.3, colorTemperature = Neutral, surfaceComplexity = lit 0.3 \<rparr>),
     (''airbnb'',
      \<lparr> abstraction = lit 0.3, restraint = lit 0.4, density = lit 0.5, motion = lit 0.5,
         contrast = lit 0.5, narrative = lit 0.7, motifPreference = [''photography'', ''illustrations''],
         typographyLooseness = lit 0.5, colorTemperature = Warm, surfaceComplexity = lit 0.5 \<rparr>),
     (''chronicle'',
      \<lparr> abstraction = lit 0.7, restraint = lit 0.6, density = lit 0.4, motion = lit 0.6,
         contrast = lit 0.7, narrative = lit 0.5, motifPreference = [''dots'', ''lines'', ''gradients''],
         typographyLooseness = lit 0.3, colorTemperature = Cool, surfaceComplexity = lit 0.6 \<rparr>),
     (''raycast'',
      \<lparr> abstraction = lit 0.6, restraint = lit 0.8, density = lit 0.5, motion = lit 0.5,
         contrast = lit 0.7, narrative = lit 0.4, motifPreference = [''blur'', ''gradients''],
         typographyLooseness = lit 0.3, colorTemperature = Cool, surfaceComplexity = lit 0.5 \<rparr>)]"

text \<open>
  \<open>KNOWN_REFERENCES[name]\<close> is a property read on an object literal: besides its own
  ten entries it finds what every object inherits from \<open>Object.prototype\<close>, and those
  members are truthy.
\<close>

datatype profileRef = Profile TasteProfile | PrototypeMember

definition objectPrototypeNames :: "string list" where
  "objectPrototypeNames =
     [''constructor'', ''__defineGetter__'', ''__defineSetter__'', ''hasOwnProperty'',
      ''__lookupGetter__'', ''__lookupSetter__'', ''isPrototypeOf'', ''propertyIsEnumerable'',
      ''toString'', ''valueOf'', ''__proto__'', ''toLocaleString'']"

definition knownReference :: "string \<Rightarrow> profileRef option" where
  "knownReference n =
     (case map_of KNOWN_REFERENCES n of
        Some p \<Rightarrow> Some (Profile p)
      | None \<Rightarrow> if n \<in> set objectPrototypeNames then Some PrototypeMember else None)"

record Inspiration =
  type' :: string
  value' :: string
  weight :: "double option"

definition unknownSourceProfile :: TasteProfile where
  "unknownSourceProfile =
     \<lparr> abstraction = lit 0.5, restraint = lit 0.5, density = lit 0.5, motion = lit 0.5,
       contrast = lit 0.5, narrative = lit 0.5, motifPreference = [''gradients''],
       typographyLooseness = lit 0.5, colorTemperature = Neutral,
       surfaceComplexity = lit 0.5 \<rparr>"

definition screenshotProfile :: TasteProfile where
  "screenshotProfile =
     \<lparr> abstraction = lit 0.6, restraint = lit 0.5, density = lit 0.5, motion = lit 0.4,
       contrast = lit 0.5, narrative = lit 0.5, motifPreference = [''gradients''],
       typographyLooseness = lit 0.5, colorTemperature = Neutral,
       surfaceComplexity = lit 0.5 \<rparr>"

text \<open>
  The reference name of a URL: \<open>value.replace(/^https?:\/\//, '').split('/')[0]\<close>,
  then \<open>.replace(/\..*$/, '').toLowerCase()\<close>. The second pattern cuts at the first
  point that no line terminator follows (\<open>.\<close> does not match one).
\<close>

definition stripScheme :: "string \<Rightarrow> string" where
  "stripScheme s =
     (if take 7 s = ''http://'' then drop 7 s
      else if take 8 s = ''https://'' then drop 8 s
      else s)"

definition isLineTerminator :: "char \<Rightarrow> bool" where
  "isLineTerminator c = ((of_char c :: nat) = 10 \<or> (of_char c :: nat) = 13)"

fun dropFromDot :: "string \<Rightarrow> string" where
  "dropFromDot [] = []"
| "dropFromDot (c # cs) =
     (if c = CHR ''.'' \<and> \<not> list_ex isLineTerminator cs then [] else c # dropFromDot cs)"

definition urlReferenceName :: "string \<Rightarrow> string" where
  "urlReferenceName v =
     (let domain = takeWhile (\<lambda>c. c \<noteq> CHR ''/'') (stripScheme v)
      in toLowerCase (dropFromDot domain))"

text \<open>
  One pass of the first loop of \<open>deriveTasteFromInspirations\<close>: what an inspiration
  pushes onto \<open>profiles\<close> (nothing when its type is none of the four). The weight is
  \<open>insp.weight ?? 1.0\<close>, multiplied by \<open>0.5\<close> or \<open>0.3\<close> for a source that is not known.
\<close>

definition resolveInspiration :: "Inspiration \<Rightarrow> (profileRef \<times> double) list" where
  "resolveInspiration insp =
     (let w = (case weight insp of None \<Rightarrow> lit 1.0 | Some x \<Rightarrow> x)
      in if type' insp = ''reference-name'' \<or> type' insp = ''reference'' then
           (case knownReference (toLowerCase (value' insp)) of
              Some r \<Rightarrow> [(r, w)]
            | None \<Rightarrow> [(Profile unknownSourceProfile, fmul w (lit 0.5))])
         else if type' insp = ''url'' then
           (case knownReference (urlReferenceName (value' insp)) of
              Some r \<Rightarrow> [(r, w)]
            | None \<Rightarrow> [(Profile unknownSourceProfile, fmul w (lit 0.3))])
         else if type' insp = ''screenshot'' then
           [(Profile screenshotProfile, fmul w (lit 0.5))]
         else [])"

definition resolveInspirations :: "Inspiration list \<Rightarrow> (profileRef \<times> double) list" where
  "resolveInspirations inspirations = concat (map resolveInspiration inspirations)"

text \<open>
  The rest of the function, on the \<open>profiles\<close> array. An entry that is a member of
  \<open>Object.prototype\<close> has no \<open>motifPreference\<close>, so the motif loop throws on it
  (\<open>undefined.forEach\<close>); the loop before it does not throw.
\<close>

fun ownProfiles :: "(profileRef \<times> double) list \<Rightarrow> (TasteProfile \<times> double) list option" where
  "ownProfiles [] = Some []"
| "ownProfiles ((Profile p, w) # rest) = map_option (Cons (p, w)) (ownProfiles rest)"
| "ownProfiles ((PrototypeMember, w) # rest) = None"

text \<open>\<open>profiles.reduce((sum, p) => sum + p.weight, 0)\<close>.\<close>

definition totalWeightOf :: "('a \<times> double) list \<Rightarrow> double" where
  "totalWeightOf profiles = foldl (\<lambda>sum p. fadd sum (snd p)) (Fin 0) profiles"

text \<open>
  One field of the blending loop: \<open>w = weight / totalWeight\<close>, then
  \<open>blended.field += profile.field * w\<close>, from \<open>0\<close>.
\<close>

definition blendField :: "(TasteProfile \<Rightarrow> double) \<Rightarrow> double \<Rightarrow> (TasteProfile \<times> double) list \<Rightarrow> double" where
  "blendField field totalWeight profiles =
     foldl (\<lambda>acc pw. fadd acc (fmul (field (fst pw)) (fdiv (snd pw) totalWeight))) (Fin 0) profiles"

definition collectMotifs :: "(TasteProfile \<times> double) list \<Rightarrow> string list" where
  "collectMotifs profiles =
     foldl (\<lambda>motifSet m. if m \<in> set motifSet then motifSet else motifSet @ [m]) []
       (concat (map (\<lambda>pw. motifPreference (fst pw)) profiles))"

record TempCounts =
  warm :: double
  cool :: double
  neutral :: double

definition addTemp :: "TempCounts \<Rightarrow> TasteProfile \<times> double \<Rightarrow> TempCounts" where
  "addTemp counts pw =
     (case colorTemperature (fst pw) of
        Warm \<Rightarrow> counts\<lparr>warm := fadd (warm counts) (snd pw)\<rparr>
      | Cool \<Rightarrow> counts\<lparr>cool := fadd (cool counts) (snd pw)\<rparr>
      | Neutral \<Rightarrow> counts\<lparr>neutral := fadd (neutral counts) (snd pw)\<rparr>)"

definition tempCounts :: "(TasteProfile \<times> double) list \<Rightarrow> TempCounts" where
  "tempCounts profiles = foldl addTemp \<lparr> warm = Fin 0, cool = Fin 0, neutral = Fin 0 \<rparr> profiles"

definition pickTemperature :: "TempCounts \<Rightarrow> ColorTemperature" where
  "pickTemperature counts =
     (if fgt (warm counts) (cool counts) \<and> fgt (warm counts) (neutral counts) then Warm
      else if fgt (cool counts) (neutral counts) then Cool
      else Neutral)"

definition blendProfiles :: "(profileRef \<times> double) list \<Rightarrow> error + TasteProfile" where
  "blendProfiles profiles =
     (let totalWeight = totalWeightOf profiles
      in case ownProfiles profiles of
           None \<Rightarrow> Inl TypeError
         | Some ps \<Rightarrow>
             Inr \<lparr> abstraction = blendField abstraction totalWeight ps,
                   restraint = blendField restraint totalWeight ps,
                   density = blendField density totalWeight ps,
                   motion = blendField motion totalWeight ps,
                   contrast = blendField contrast totalWeight ps,
                   narrative = blendField narrative totalWeight ps,
                   motifPreference = collectMotifs ps,
                   typographyLooseness = blendField typographyLooseness totalWeight ps,
                   colorTemperature = pickTemperature (tempCounts ps),
                   surfaceComplexity = blendField surfaceComplexity totalWeight ps \<rparr>)"

definition deriveTasteFromInspirations :: "Inspiration list \<Rightarrow> error + TasteProfile" where
  "deriveTasteFromInspirations inspirations =
     (if inspirations = [] then Inl (McpError InvalidRequest ''At least one inspiration required'')
      else blendProfiles (resolveInspirations inspirations))"

subsection \<open>The blend as the specification words it\<close>

text \<open>
  The quantities the claims about the blend speak of, written from the specification
  and compared with the code below. The weighted average \<open>sum (field_i * w_i / W)\<close> of
  a continuous field is a real number, computed exactly from the values the fields
  and weights denote (a field or weight that is not finite counts as 0 there; the
  results below use it on finite numbers only). The weight a colour temperature has
  accumulated is the sum, in the order of the list and in the arithmetic of numbers,
  of the weights of the profiles of that temperature.
\<close>

definition valueOf :: "double \<Rightarrow> real" where
  "valueOf d = (case d of Fin x \<Rightarrow> x | _ \<Rightarrow> 0)"

definition weightedAverage :: "(TasteProfile \<Rightarrow> double) \<Rightarrow> (TasteProfile \<times> double) list \<Rightarrow> real" where
  "weightedAverage field ps =
     (\<Sum>pw\<leftarrow>ps. valueOf (field (fst pw)) * valueOf (snd pw)) / (\<Sum>pw\<leftarrow>ps. valueOf (snd pw))"

definition categoryWeight :: "ColorTemperature \<Rightarrow> (TasteProfile \<times> double) list \<Rightarrow> double" where
  "categoryWeight t ps =
     foldl fadd (Fin 0) (map snd (filter (\<lambda>pw. colorTemperature (fst pw) = t) ps))"

text \<open>The eight continuous fields of a profile.\<close>

definition continuousFields :: "(TasteProfile \<Rightarrow> double) list" where
  "continuousFields =
     [abstraction, restraint, density, motion, contrast, narrative, typographyLooseness,
      surfaceComplexity]"

text \<open>
  The unit roundoff of binary64 is \<open>2 ^ (-53)\<close>: a result in the normal range differs
  from the exact one by at most that fraction of it. A computed number \<open>r\<close> is within
  \<open>k\<close> roundings of an exact quantity \<open>a\<close> when \<open>a * (1 - u) ^ k \<le> r\<close> and
  \<open>r * (1 - u) ^ k \<le> a\<close>: the relative error is at most \<open>(1 - u) ^ (- k) - 1\<close>, about
  \<open>k * u\<close>.
\<close>

definition unitRoundoff :: real where
  "unitRoundoff = 1 / 2 ^ 53"

definition closeTo :: "nat \<Rightarrow> real \<Rightarrow> real \<Rightarrow> bool" where
  "closeTo k a r = (a * (1 - unitRoundoff) ^ k \<le> r \<and> r * (1 - unitRoundoff) ^ k \<le> a)"

definition withinRoundoff :: "nat \<Rightarrow> real \<Rightarrow> double \<Rightarrow> bool" where
  "withinRoundoff k a d = (case d of Fin r \<Rightarrow> closeTo k a r | _ \<Rightarrow> False)"

text \<open>
  The weights for which the blend neither overflows nor underflows: zero, or between
  \<open>2 ^ (-300)\<close> and \<open>2 ^ 300\<close>.
\<close>

definition weightInRange :: "double \<Rightarrow> bool" where
  "weightInRange d =
     (case d of Fin w \<Rightarrow> w = 0 \<or> (2 powi (- 300) \<le> w \<and> w \<le> 2 powi 300) | _ \<Rightarrow> False)"

text \<open>
  The range of the continuous fields of the profiles the function blends, the known
  references and the two fallbacks: each is a finite number between \<open>1 / 8\<close> and \<open>1\<close>.
\<close>

definition fieldsInRange :: "TasteProfile \<Rightarrow> bool" where
  "fieldsInRange p =
     list_all (\<lambda>field. case field p of Fin v \<Rightarrow> 1 / 8 \<le> v \<and> v \<le> 1 | _ \<Rightarrow> False)
       continuousFields"

section \<open>Sample inputs\<close>

text \<open>Concrete inputs at which the theorems below are instantiated.\<close>

definition sampleTokens :: ThemeTokens where
  "sampleTokens =
     \<lparr> bg = ''222 47% 5%'', surface = ''220 35% 8%'', surface2 = ''220 30% 11%'',
       surfaceInset = ''222 40% 4%'', border = ''220 20% 18%'', borderSubtle = ''220 20% 14%'',
       text' = ''210 20% 96%'', textMuted = ''215 15% 60%'', accent = ''160 84% 39%'',
       accentFg = ''0 0% 100%'', accentMuted = ''160 40% 15%'', accentSecondary = ''200 80% 50%'',
       ring = ''160 84% 45%'', success = ''142 70% 45%'', successMuted = ''142 40% 15%'',
       warning = ''38 90% 50%'', warningMuted = ''38 60% 15%'', danger = ''0 70% 55%'',
       dangerMuted = ''0 50% 15%'', shadowSurface = ''0 2px 8px rgba(0, 0, 0, 0.3)'',
       shadowPopover = ''0 8px 24px rgba(0, 0, 0, 0.4)'', shadowGlow = ''none'',
       radiusSurface = ''10px'', radiusControl = ''6px'',
       typeScale = [
         (''h1'', \<lparr> fontSize = ''1.875rem'', fontWeight = ''600'', letterSpacing = ''-0.02em'',
                    lineHeight = ''1.2'', textTransform = None \<rparr>),
         (''label'', \<lparr> fontSize = ''0.75rem'', fontWeight = ''500'', letterSpacing = ''0.05em'',
                    lineHeight = ''1.4'', textTransform = Some ''uppercase'' \<rparr>)],
       density = [(''tableRowHeight'', ''44px''), (''cardPadding'', ''20px'')] \<rparr>"

definition legacyRecipes :: "(string \<times> jsval) list" where
  "legacyRecipes =
     [(''AppShell'', JObj [(''backgroundTreatment'', JStr ''chronicle''),
                          (''glowColor'', JStr ''accent'')]),
      (''StatCard'', JObj [(''style'', JStr ''accent'')])]"

definition legacyPack :: ThemePack where
  "legacyPack = \<lparr> name = ''Chronicle Dark'', mode = Dark, tokens = sampleTokens,
                  recipes = JObj legacyRecipes \<rparr>"

definition currentRecipes :: "(string \<times> jsval) list" where
  "currentRecipes =
     [(''product'', JObj [(''StatCard'', JObj [(''style'', JStr ''accent'')])]),
      (''marketing'', JObj [(''Hero'', JObj [(''titleSize'', JStr ''3.5rem'')])])]"

definition currentPack :: ThemePack where
  "currentPack = \<lparr> name = ''Ops Calm'', mode = Light, tokens = sampleTokens,
                   recipes = JObj currentRecipes \<rparr>"

definition browserRoot :: Element where
  "browserRoot = \<lparr> attributes = [(''lang'', ''en'')], classList = [''app'', ''dark''],
                   style = [(''--ds-bg'', ''0 0% 100%''), (''color'', ''red'')] \<rparr>"

definition browserWorld :: World where
  "browserWorld = \<lparr> currentTheme = None, currentContext = Product,
                    documentElement = Some browserRoot, window = Some [], console = [] \<rparr>"

definition headlessWorld :: World where
  "headlessWorld = \<lparr> currentTheme = None, currentContext = Product,
                     documentElement = None, window = None, console = [] \<rparr>"

definition sampleTuners :: AppliedTuners where
  "sampleTuners = DEFAULT_TUNERS(Density := 0.25, Motion := 1, Contrast := 0)"

definition sampleQuery :: "(string \<times> string) list" where
  "sampleQuery = [(''theme'', ''chronicle-dark''), (''density'', ''0.9''), (''density'', ''7'')]"

definition halfTuners :: "TunerKey \<Rightarrow> double" where
  "halfTuners = (\<lambda>k. Fin 0.5)"

definition reference :: "string \<Rightarrow> double \<Rightarrow> Inspiration" where
  "reference n w = \<lparr> type' = ''reference-name'', value' = n, weight = Some w \<rparr>"

definition linearProfile :: TasteProfile where
  "linearProfile =
     \<lparr> abstraction = lit 0.7, restraint = lit 0.8, density = lit 0.4, motion = lit 0.6,
       contrast = lit 0.7, narrative = lit 0.5, motifPreference = [''gradients'', ''blur''],
       typographyLooseness = lit 0.3, colorTemperature = Cool, surfaceComplexity = lit 0.5 \<rparr>"

definition notionProfile :: TasteProfile where
  "notionProfile =
     \<lparr> abstraction = lit 0.3, restraint = lit 0.6, density = lit 0.6, motion = lit 0.3,
       contrast = lit 0.5, narrative = lit 0.6, motifPreference = [''illustrations''],
       typographyLooseness = lit 0.5, colorTemperature = Warm, surfaceComplexity = lit 0.4 \<rparr>"

definition vercelProfile :: TasteProfile where
  "vercelProfile =
     \<lparr> abstraction = lit 0.8, restraint = lit 0.9, density = lit 0.3, motion = lit 0.5,
       contrast = lit 0.8, narrative = lit 0.4, motifPreference = [''lines'', ''gradients''],
       typographyLooseness = lit 0.2, colorTemperature = Neutral, surfaceComplexity = lit 0.3 \<rparr>"

definition airbnbProfile :: TasteProfile where
  "airbnbProfile =
     \<lparr> abstraction = lit 0.3, restraint = lit 0.4, density = lit 0.5, motion = lit 0.5,
       contrast = lit 0.5, narrative = lit 0.7,
       motifPreference = [''photography'', ''illustrations''],
       typographyLooseness = lit 0.5, colorTemperature = Warm, surfaceComplexity = lit 0.5 \<rparr>"

text \<open>The weight \<open>1e308\<close>, whose double exceeds half the largest finite number.\<close>

definition hugeWeight :: double where
  "hugeWeight = lit (10 ^ 308)"

definition unrecognized :: "Inspiration list" where
  "unrecognized = [\<lparr> type' = ''image'', value' = ''hero.png'', weight = Some (Fin 1) \<rparr>,
                   \<lparr> type' = ''Reference'', value' = ''linear'', weight = None \<rparr>]"

section \<open>Normalization: results\<close>

lemma alreadyCurrent_both:
  "alreadyCurrent (objectLiteral [Prop ''product'' p, Prop ''marketing'' q]) = Inr True"
  by (simp add: alreadyCurrent_def objectLiteral_def)

lemma normalize_fixed:
  "alreadyCurrent (recipes y) = Inr True \<Longrightarrow> normalizeThemePack y = Inr y"
  by (simp add: normalizeThemePack_def)

lemma normalize_result:
  "normalizeThemePack x = Inr y \<Longrightarrow> alreadyCurrent (recipes y) = Inr True"
  unfolding normalizeThemePack_def
  by (auto simp: alreadyCurrent_both Let_def split: sum.splits bool.splits)

lemma normalize_object:
  "recipes x = JObj kvs \<Longrightarrow> \<exists>y. normalizeThemePack x = Inr y"
  unfolding normalizeThemePack_def
  by (auto simp: alreadyCurrent_def Let_def split: sum.splits bool.splits)

text \<open>
  Claim C1. Normalizing twice is normalizing once: whatever the first call does (return
  or throw), running the second call on its result changes nothing. For every
  configuration whose recipes are an object, legacy or current, the first call returns
  a configuration whose recipes hold both the \<open>product\<close> and the \<open>marketing\<close> key, and
  the second call returns that configuration unchanged.
\<close>

theorem normalizeThemePack_idempotent:
  "(case normalizeThemePack x of Inl e \<Rightarrow> Inl e | Inr y \<Rightarrow> normalizeThemePack y)
     = normalizeThemePack x
   \<and> (recipes x = JObj kvs \<longrightarrow>
        (\<exists>y. normalizeThemePack x = Inr y
           \<and> hasProperty ''product'' (recipes y) = Inr True
           \<and> hasProperty ''marketing'' (recipes y) = Inr True
           \<and> normalizeThemePack y = Inr y))"
proof (intro conjI impI)
  show "(case normalizeThemePack x of Inl e \<Rightarrow> Inl e | Inr y \<Rightarrow> normalizeThemePack y)
          = normalizeThemePack x"
    by (auto split: sum.splits dest: normalize_result normalize_fixed)
next
  assume obj: "recipes x = JObj kvs"
  then obtain y where y: "normalizeThemePack x = Inr y"
    using normalize_object by blast
  have cur: "alreadyCurrent (recipes y) = Inr True"
    using y by (rule normalize_result)
  have keys: "hasProperty ''product'' (recipes y) = Inr True
                \<and> hasProperty ''marketing'' (recipes y) = Inr True"
    using cur unfolding alreadyCurrent_def by (auto split: if_splits sum.splits bool.splits)
  show "\<exists>y. normalizeThemePack x = Inr y
           \<and> hasProperty ''product'' (recipes y) = Inr True
           \<and> hasProperty ''marketing'' (recipes y) = Inr True
           \<and> normalizeThemePack y = Inr y"
    using y keys normalize_fixed [OF cur] by blast
qed

theorem normalizeThemePack_idempotent_witness:
  "recipes legacyPack = JObj legacyRecipes
   \<and> (\<exists>y. normalizeThemePack legacyPack = Inr y
           \<and> hasProperty ''product'' (recipes y) = Inr True
           \<and> hasProperty ''marketing'' (recipes y) = Inr True
           \<and> normalizeThemePack y = Inr y)"
proof -
  have h: "recipes legacyPack = JObj legacyRecipes"
    by (simp add: legacyPack_def)
  from normalizeThemePack_idempotent [of legacyPack legacyRecipes] h show ?thesis
    by blast
qed

text \<open>
  Claim C2. The claim says that normalization never throws, not even on a property
  access on an undefined recipes record. The code does throw there: with no \<open>recipes\<close>
  key the guard falls through to the legacy branch, whose \<open>productRecipes.AppShell\<close>
  reads a member of \<open>undefined\<close>, whatever the name, mode and tokens are.
\<close>

theorem normalizeThemePack_undefined_recipes:
  "normalizeThemePack (raw\<lparr>recipes := JUndefined\<rparr>) = Inl TypeError"
  by (simp add: normalizeThemePack_def alreadyCurrent_def)

section \<open>Context resolution: results\<close>

text \<open>
  Claim C3. For a normalized configuration, one whose recipes hold a \<open>product\<close> and a
  \<open>marketing\<close> recipe set, \<open>getRecipesForContext\<close> returns the marketing set for the
  marketing context and the product set otherwise; this covers every configuration
  that \<open>normalizeThemePack\<close> builds from a legacy input. For a bare legacy
  configuration, whose recipes have neither key, it returns the recipes themselves
  for both contexts.
\<close>

theorem getRecipesForContext_resolves:
  "(recipes cfg = JObj kvs \<and> map_of kvs ''product'' = Some (JObj p)
      \<and> map_of kvs ''marketing'' = Some (JObj m)
      \<longrightarrow> getRecipesForContext cfg Marketing = Inr (JObj m)
        \<and> getRecipesForContext cfg Product = Inr (JObj p))
   \<and> (normalizeThemePack x = Inr cfg \<and> alreadyCurrent (recipes x) = Inr False
      \<longrightarrow> getRecipesForContext cfg Marketing = member (recipes cfg) ''marketing''
        \<and> getRecipesForContext cfg Product = member (recipes cfg) ''product'')
   \<and> (recipes cfg = JObj kvs \<and> ''product'' \<notin> set (map fst kvs)
      \<and> ''marketing'' \<notin> set (map fst kvs)
      \<longrightarrow> getRecipesForContext cfg Marketing = Inr (recipes cfg)
        \<and> getRecipesForContext cfg Product = Inr (recipes cfg))"
proof (intro conjI impI)
  assume "recipes cfg = JObj kvs \<and> map_of kvs ''product'' = Some (JObj p)
      \<and> map_of kvs ''marketing'' = Some (JObj m)"
  then show "getRecipesForContext cfg Marketing = Inr (JObj m)"
    and "getRecipesForContext cfg Product = Inr (JObj p)"
    by (simp_all add: getRecipesForContext_def)
next
  assume a: "normalizeThemePack x = Inr cfg \<and> alreadyCurrent (recipes x) = Inr False"
  then obtain pr mk where r: "recipes cfg =
      objectLiteral [Prop ''product'' (objectLiteral pr), Prop ''marketing'' (objectLiteral mk)]"
    unfolding normalizeThemePack_def marketingRecipes_def
    by (auto simp: Let_def split: sum.splits)
  show "getRecipesForContext cfg Marketing = member (recipes cfg) ''marketing''"
    and "getRecipesForContext cfg Product = member (recipes cfg) ''product''"
    by (simp_all add: getRecipesForContext_def r objectLiteral_def)
next
  assume a: "recipes cfg = JObj kvs \<and> ''product'' \<notin> set (map fst kvs)
      \<and> ''marketing'' \<notin> set (map fst kvs)"
  then have "map_of kvs ''product'' = None" and "map_of kvs ''marketing'' = None"
    by (simp_all add: map_of_eq_None_iff)
  with a show "getRecipesForContext cfg Marketing = Inr (recipes cfg)"
    and "getRecipesForContext cfg Product = Inr (recipes cfg)"
    by (simp_all add: getRecipesForContext_def)
qed

theorem getRecipesForContext_resolves_witness:
  "getRecipesForContext currentPack Marketing = Inr (JObj [(''Hero'', JObj [(''titleSize'', JStr ''3.5rem'')])])
   \<and> getRecipesForContext currentPack Product = Inr (JObj [(''StatCard'', JObj [(''style'', JStr ''accent'')])])
   \<and> normalizeThemePack legacyPack = Inr (projr (normalizeThemePack legacyPack))
   \<and> getRecipesForContext (projr (normalizeThemePack legacyPack)) Marketing
       = member (recipes (projr (normalizeThemePack legacyPack))) ''marketing''
   \<and> getRecipesForContext (projr (normalizeThemePack legacyPack)) Product
       = member (recipes (projr (normalizeThemePack legacyPack))) ''product''
   \<and> getRecipesForContext legacyPack Marketing = Inr (JObj legacyRecipes)
   \<and> getRecipesForContext legacyPack Product = Inr (JObj legacyRecipes)"
proof -
  have cur: "recipes currentPack = JObj currentRecipes
      \<and> map_of currentRecipes ''product'' = Some (JObj [(''StatCard'', JObj [(''style'', JStr ''accent'')])])
      \<and> map_of currentRecipes ''marketing'' = Some (JObj [(''Hero'', JObj [(''titleSize'', JStr ''3.5rem'')])])"
    by (simp add: currentPack_def currentRecipes_def)
  obtain y where y: "normalizeThemePack legacyPack = Inr y"
    using normalize_object [of legacyPack legacyRecipes] by (auto simp: legacyPack_def)
  then have out: "normalizeThemePack legacyPack = Inr (projr (normalizeThemePack legacyPack))"
    by simp
  have leg: "alreadyCurrent (recipes legacyPack) = Inr False"
    by (simp add: alreadyCurrent_def legacyPack_def legacyRecipes_def)
  have bare: "recipes legacyPack = JObj legacyRecipes \<and> ''product'' \<notin> set (map fst legacyRecipes)
      \<and> ''marketing'' \<notin> set (map fst legacyRecipes)"
    by (simp add: legacyPack_def legacyRecipes_def)
  have r: "recipes legacyPack = JObj legacyRecipes"
    by (simp add: legacyPack_def)
  show ?thesis
    using getRecipesForContext_resolves [of currentPack currentRecipes _ _ legacyPack] cur
      getRecipesForContext_resolves [of "projr (normalizeThemePack legacyPack)" "[]" "[]" "[]" legacyPack] out leg
      getRecipesForContext_resolves [of legacyPack legacyRecipes "[]" "[]" legacyPack] bare r
    by simp
qed

section \<open>Applying a theme: results\<close>

lemma update_commute_present:
  "k \<noteq> k' \<Longrightarrow> k' \<in> fst ` set al \<Longrightarrow>
   AList.update k v (AList.update k' v' al) = AList.update k' v' (AList.update k v al)"
  by (induction al) auto

lemma dom_setProperty: "fst ` set (setProperty a al) = insert (fst a) (fst ` set al)"
  by (simp add: setProperty_def dom_update)

lemma setProperty_same: "fst a = fst b \<Longrightarrow> setProperty a (setProperty b al) = setProperty a al"
  by (simp add: setProperty_def)

lemma setProperty_commute:
  "fst a \<noteq> fst b \<Longrightarrow> fst b \<in> fst ` set al \<Longrightarrow>
   setProperty a (setProperty b al) = setProperty b (setProperty a al)"
  unfolding setProperty_def by (rule update_commute_present)

lemma fold_keeps:
  "k \<in> fst ` set al \<Longrightarrow> k \<in> fst ` set (fold setProperty ops al)"
  by (induction ops arbitrary: al) (simp_all add: dom_setProperty)

lemma fold_present:
  "fst ` set ops \<subseteq> fst ` set (fold setProperty ops al)"
proof (induction ops arbitrary: al)
  case Nil
  then show ?case by simp
next
  case (Cons b ops)
  have "fst b \<in> fst ` set (fold setProperty ops (setProperty b al))"
    by (rule fold_keeps) (simp add: dom_setProperty)
  with Cons.IH [of "setProperty b al"] show ?case by simp
qed

text \<open>
  Writing a parameter, running a batch of writes whose names are all declared, and
  writing the parameter again gives what the batch followed by the one write gives.
\<close>

lemma setProperty_absorbs_fold:
  "fst ` set ops \<subseteq> fst ` set al \<Longrightarrow>
   setProperty a (fold setProperty ops (setProperty a al)) = setProperty a (fold setProperty ops al)"
proof (induction ops arbitrary: al)
  case Nil
  then show ?case by (simp add: setProperty_same)
next
  case (Cons b ops)
  have present: "fst b \<in> fst ` set al"
    and rest: "fst ` set ops \<subseteq> fst ` set (setProperty b al)"
    using Cons.prems by (auto simp: dom_setProperty)
  show ?case
  proof (cases "fst b = fst a")
    case True
    then show ?thesis by (simp add: setProperty_same)
  next
    case False
    then have "setProperty b (setProperty a al) = setProperty a (setProperty b al)"
      using present setProperty_commute [of a b al] by simp
    then show ?thesis
      using Cons.IH [OF rest] by simp
  qed
qed

lemma fold_setProperty_idem:
  "fold setProperty ops (fold setProperty ops al) = fold setProperty ops al"
proof (induction ops arbitrary: al rule: rev_induct)
  case Nil
  then show ?case by simp
next
  case (snoc a ops)
  have "setProperty a (fold setProperty ops (setProperty a (fold setProperty ops al)))
          = setProperty a (fold setProperty ops (fold setProperty ops al))"
    by (rule setProperty_absorbs_fold) (rule fold_present)
  then show ?case
    by (simp add: snoc.IH)
qed

lemma attributes_idem:
  fixes k1 k2 k3 v1 v2 v3 :: string
  shows "AList.update k1 v1 (AList.update k2 v2 (AList.update k3 v3
     (AList.update k1 v1 (AList.update k2 v2 (AList.update k3 v3 al)))))
   = AList.update k1 v1 (AList.update k2 v2 (AList.update k3 v3 al))"
  using fold_setProperty_idem [of "[(k3, v3), (k2, v2), (k1, v1)]" al]
  by (simp add: setProperty_def)

lemma applyToRoot_fields:
  "attributes (applyToRoot theme context el) =
     AList.update ''data-context'' (contextName context)
       (AList.update ''data-theme-mode'' (modeName (mode theme))
         (AList.update ''data-theme'' (themeKey (name theme)) (attributes el)))"
  "classList (applyToRoot theme context el) =
     (if mode theme = Dark
      then (if ''dark'' \<in> set (classList el) then classList el else classList el @ [''dark''])
      else filter (\<lambda>x. x \<noteq> ''dark'') (classList el))"
  "style (applyToRoot theme context el) =
     fold setProperty (styleParameters (tokens theme)) (style el)"
  "Element.more (applyToRoot theme context el) = Element.more el"
  by (simp_all add: applyToRoot_def Let_def setAttribute_def classListAdd_def classListRemove_def)

lemma applyToRoot_idem:
  "applyToRoot theme context (applyToRoot theme context el) = applyToRoot theme context el"
  by (rule Element.equality)
     (simp_all add: applyToRoot_fields attributes_idem fold_setProperty_idem)

text \<open>
  Claim C4, as amended. With a document and a window: the first call writes every style
  parameter of the tokens, in the order of the source; the second call leaves the root
  element exactly as the first left it (the same parameters with the same values in
  the same order, nothing accumulated); each call dispatches one \<open>themechange\<close> event
  carrying the theme and the context, two in total. Without a document a call only
  records the theme and the context. With a document and no window a call writes the
  parameters and dispatches nothing.
\<close>

theorem applyTheme_twice:
  "(documentElement w = Some el \<and> window w = Some evs \<longrightarrow>
     (let w1 = applyTheme theme context w; w2 = applyTheme theme context w1
      in styleOf w1 = fold setProperty (styleParameters (tokens theme)) (style el)
       \<and> fst ` set (styleParameters (tokens theme)) \<subseteq> fst ` set (styleOf w1)
       \<and> styleOf w2 = styleOf w1
       \<and> documentElement w2 = documentElement w1
       \<and> notifications w1 = evs @ [CustomEvent ''themechange'' theme context]
       \<and> notifications w2 = evs @ [CustomEvent ''themechange'' theme context,
                                     CustomEvent ''themechange'' theme context]
       \<and> currentTheme w2 = Some theme \<and> currentContext w2 = context))
   \<and> (documentElement w = None \<longrightarrow>
        applyTheme theme context w = w\<lparr>currentTheme := Some theme, currentContext := context\<rparr>)
   \<and> (documentElement w = Some el \<and> window w = None \<longrightarrow>
        styleOf (applyTheme theme context w)
          = fold setProperty (styleParameters (tokens theme)) (style el)
        \<and> window (applyTheme theme context w) = None)"
  using fold_present [of "styleParameters (tokens theme)" "style el"]
  by (simp add: applyTheme_def Let_def styleOf_def notifications_def applyToRoot_idem
      applyToRoot_fields)

theorem applyTheme_twice_witness:
  "documentElement browserWorld = Some browserRoot \<and> window browserWorld = Some []
   \<and> (let w1 = applyTheme currentPack Marketing browserWorld;
           w2 = applyTheme currentPack Marketing w1
       in styleOf w2 = styleOf w1
        \<and> documentElement w2 = documentElement w1
        \<and> notifications w1 = [CustomEvent ''themechange'' currentPack Marketing]
        \<and> notifications w2 = [CustomEvent ''themechange'' currentPack Marketing,
                                CustomEvent ''themechange'' currentPack Marketing])
   \<and> documentElement headlessWorld = None
   \<and> applyTheme currentPack Marketing headlessWorld
       = headlessWorld\<lparr>currentTheme := Some currentPack, currentContext := Marketing\<rparr>
   \<and> documentElement (browserWorld\<lparr>window := None\<rparr>) = Some browserRoot
   \<and> window (applyTheme currentPack Marketing (browserWorld\<lparr>window := None\<rparr>)) = None"
proof -
  have b: "documentElement browserWorld = Some browserRoot \<and> window browserWorld = Some []"
    by (simp add: browserWorld_def)
  have h: "documentElement headlessWorld = None"
    by (simp add: headlessWorld_def)
  have n: "documentElement (browserWorld\<lparr>window := None\<rparr>) = Some browserRoot
      \<and> window (browserWorld\<lparr>window := None\<rparr>) = None"
    by (simp add: browserWorld_def)
  show ?thesis
    using applyTheme_twice [of browserWorld browserRoot "[]" currentPack Marketing] b
      applyTheme_twice [of headlessWorld browserRoot "[]" currentPack Marketing] h
      applyTheme_twice [of "browserWorld\<lparr>window := None\<rparr>" browserRoot "[]" currentPack Marketing] n
    by (simp add: Let_def)
qed

text \<open>
  The claim as stated fails where there is no document (a server-side render): two
  calls in a row dispatch no notification at all and write no style parameter.
\<close>

theorem applyTheme_without_document:
  "notifications (applyTheme currentPack Product (applyTheme currentPack Product headlessWorld)) = []
   \<and> styleOf (applyTheme currentPack Product (applyTheme currentPack Product headlessWorld)) = []
   \<and> length (notifications
        (applyTheme currentPack Product (applyTheme currentPack Product headlessWorld))) \<noteq> 2"
  by (simp add: applyTheme_def headlessWorld_def notifications_def styleOf_def)

section \<open>Numbers: results\<close>

text \<open>
  The exponent brackets its argument, so a result in the normal range is rounded with
  a relative error of at most the unit roundoff.
\<close>

lemma exponentOf_lower:
  assumes "0 < x"
  shows "2 powi exponentOf x \<le> x"
proof (cases "1 \<le> x")
  case True
  define k where "k = \<lfloor>x\<rfloor>"
  have k: "0 < k" using True by (simp add: k_def)
  have e: "exponentOf x = bitlen k - 1" using True assms by (simp add: exponentOf_def k_def)
  have nn: "0 \<le> bitlen k - 1" using k by (simp add: bitlen_alt_def)
  have "(2::int) ^ nat (bitlen k - 1) \<le> k" using bitlen_bounds [OF k] by simp
  then have "real_of_int (2 ^ nat (bitlen k - 1)) \<le> real_of_int k" by (rule of_int_le_iff [THEN iffD2])
  also have "\<dots> \<le> x" by (simp add: k_def)
  finally show ?thesis using nn by (simp add: e power_int_nonneg_exp)
next
  case False
  define k where "k = \<lceil>1 / x\<rceil> - 1"
  have "1 < 1 / x" using False assms by simp
  then have "1 < \<lceil>1 / x\<rceil>" by (simp add: less_ceiling_iff)
  then have k: "0 < k" by (simp add: k_def)
  have e: "exponentOf x = - bitlen k" using False assms by (simp add: exponentOf_def k_def)
  have nn: "0 \<le> bitlen k" by (rule bitlen_nonneg)
  have "k < 2 ^ nat (bitlen k)" using bitlen_bounds [OF k] by simp
  then have "k + 1 \<le> 2 ^ nat (bitlen k)" by simp
  then have "real_of_int (k + 1) \<le> real_of_int (2 ^ nat (bitlen k))" by (rule of_int_le_iff [THEN iffD2])
  moreover have "1 / x \<le> real_of_int (k + 1)" by (simp add: k_def)
  ultimately have "1 / x \<le> 2 ^ nat (bitlen k)" by simp
  then have "1 \<le> 2 ^ nat (bitlen k) * x" using assms by (simp add: field_simps)
  then have "1 / 2 ^ nat (bitlen k) \<le> x" by (simp add: field_simps)
  moreover have "2 powi (- bitlen k) = (1::real) / 2 ^ nat (bitlen k)"
    using nn by (simp add: power_int_minus power_int_nonneg_exp field_simps)
  ultimately show ?thesis by (simp add: e)
qed

lemma exponentOf_upper:
  assumes "0 < x"
  shows "x < 2 powi (exponentOf x + 1)"
proof (cases "1 \<le> x")
  case True
  define k where "k = \<lfloor>x\<rfloor>"
  have k: "0 < k" using True by (simp add: k_def)
  have e: "exponentOf x = bitlen k - 1" using True assms by (simp add: exponentOf_def k_def)
  have nn: "0 \<le> bitlen k" by (rule bitlen_nonneg)
  have "k < 2 ^ nat (bitlen k)" using bitlen_bounds [OF k] by simp
  then have "k + 1 \<le> 2 ^ nat (bitlen k)" by simp
  then have "real_of_int (k + 1) \<le> real_of_int (2 ^ nat (bitlen k))" by (rule of_int_le_iff [THEN iffD2])
  moreover have "x < real_of_int (k + 1)" by (simp add: k_def)
  ultimately have "x < 2 ^ nat (bitlen k)" by simp
  then show ?thesis using nn by (simp add: e power_int_nonneg_exp)
next
  case False
  define k where "k = \<lceil>1 / x\<rceil> - 1"
  have "1 < 1 / x" using False assms by simp
  then have "1 < \<lceil>1 / x\<rceil>" by (simp add: less_ceiling_iff)
  then have k: "0 < k" by (simp add: k_def)
  have e: "exponentOf x = - bitlen k" using False assms by (simp add: exponentOf_def k_def)
  have nn: "0 \<le> bitlen k - 1" using k by (simp add: bitlen_alt_def)
  have "(2::int) ^ nat (bitlen k - 1) \<le> k" using bitlen_bounds [OF k] by simp
  then have "real_of_int (2 ^ nat (bitlen k - 1)) \<le> real_of_int k" by (rule of_int_le_iff [THEN iffD2])
  then have "(2::real) ^ nat (bitlen k - 1) \<le> real_of_int k" by simp
  moreover have "real_of_int k < 1 / x" by (simp add: k_def ceiling_correct)
  ultimately have "2 ^ nat (bitlen k - 1) < 1 / x" by (rule le_less_trans)
  then have "2 ^ nat (bitlen k - 1) * x < 1" using assms by (simp add: field_simps)
  then have "x < 1 / 2 ^ nat (bitlen k - 1)" by (simp add: field_simps)
  moreover have "2 powi (- bitlen k + 1) = (1::real) / 2 ^ nat (bitlen k - 1)"
  proof -
    have "- bitlen k + 1 = - (bitlen k - 1)" by simp
    then have "(2::real) powi (- bitlen k + 1) = 2 powi (- (bitlen k - 1))" by simp
    also have "\<dots> = 1 / 2 ^ nat (bitlen k - 1)"
      using nn by (simp only: power_int_minus power_int_nonneg_exp inverse_eq_divide)
    finally show ?thesis .
  qed
  ultimately show ?thesis by (simp add: e)
qed

lemma roundHalfEven_near: "\<bar>real_of_int (roundHalfEven m) - m\<bar> \<le> 1 / 2"
proof -
  have "real_of_int \<lfloor>m\<rfloor> \<le> m" "m < real_of_int \<lfloor>m\<rfloor> + 1" by linarith+
  then show ?thesis
    by (auto simp: roundHalfEven_def Let_def)
qed

lemma two_powi_less_exp: "(2::real) powi a < 2 powi b \<Longrightarrow> a < b"
proof (rule ccontr)
  assume l: "(2::real) powi a < 2 powi b" and "\<not> a < b"
  then have "b \<le> a" by simp
  then have "(2::real) powi b \<le> 2 powi a" by (rule power_int_increasing) simp
  with l show False by simp
qed

lemma two_powi_double: "2 * (2::real) powi k = 2 powi (k + 1)"
  by (simp add: power_int_add)

lemma round64_near:
  assumes lo: "2 powi (- 1022) \<le> x" and hi: "x < 2 powi 1023"
  shows "\<exists>y. round64 x = Fin y \<and> (1 - unitRoundoff) * x \<le> y \<and> y \<le> (1 + unitRoundoff) * x"
proof -
  have "(0::real) < 2 powi (- 1022)" by (rule zero_less_power_int) simp
  then have pos: "0 < x" using lo by (rule less_le_trans)
  define e where "e = exponentOf x"
  have el: "2 powi e \<le> x" and eu: "x < 2 powi (e + 1)"
    using exponentOf_lower [OF pos] exponentOf_upper [OF pos] by (simp_all add: e_def)
  have "(2::real) powi (- 1022) < 2 powi (e + 1)" using lo eu by (rule le_less_trans)
  then have "- 1022 < e + 1" by (rule two_powi_less_exp)
  then have e1: "- 1022 \<le> e" by simp
  define q :: real where "q = 2 powi (e - 52)"
  have qpos: "0 < q" by (simp add: q_def)
  define n where "n = roundHalfEven (x / q)"
  define y where "y = real_of_int n * q"
  have "\<bar>real_of_int n - x / q\<bar> \<le> 1 / 2" unfolding n_def by (rule roundHalfEven_near)
  then have "\<bar>real_of_int n - x / q\<bar> * q \<le> 1 / 2 * q" using qpos by simp
  moreover have "\<bar>real_of_int n - x / q\<bar> * q = \<bar>y - x\<bar>"
  proof -
    have "\<bar>real_of_int n - x / q\<bar> * q = \<bar>(real_of_int n - x / q) * q\<bar>"
      using qpos by (simp add: abs_mult)
    also have "(real_of_int n - x / q) * q = y - x"
      using qpos by (simp add: y_def field_simps)
    finally show ?thesis .
  qed
  moreover have "1 / 2 * q = unitRoundoff * 2 powi e"
  proof -
    have "(2::real) powi (e - 52) = 2 powi e * 2 powi (- 52)"
      using power_int_add [of "2::real" e "- 52"] by simp
    then show ?thesis by (simp add: q_def unitRoundoff_def power_int_minus)
  qed
  moreover have "unitRoundoff * 2 powi e \<le> unitRoundoff * x"
    using el by (simp add: unitRoundoff_def)
  ultimately have near: "\<bar>y - x\<bar> \<le> unitRoundoff * x" by simp
  then have b1: "(1 - unitRoundoff) * x \<le> y" and b2: "y \<le> (1 + unitRoundoff) * x"
    by (simp_all add: algebra_simps abs_le_iff)
  have "unitRoundoff \<le> 1" by (simp add: unitRoundoff_def)
  then have "(1 + unitRoundoff) * x \<le> 2 * x" using pos by simp
  with b2 have "y \<le> 2 * x" by (rule order_trans)
  also have "2 * x < 2 * 2 powi 1023" using hi by (simp only: mult_less_cancel_left_pos zero_less_numeral)
  also have "2 * (2::real) powi 1023 = 2 powi (1023 + 1)" by (rule two_powi_double)
  also have "(1023::int) + 1 = 1024" by simp
  finally have "\<not> 2 powi 1024 \<le> y" by (simp only: not_le)
  then have nlt: "(2 powi 1024 \<le> y) = False" by (simp only:)
  have me: "max (exponentOf x) (- 1022) = e" using e1 by (simp add: e_def)
  have ne: "(x = 0) = False" and ps: "(0 < x) = True" and ab: "\<bar>x\<bar> = x" using pos by simp_all
  have "round64 x = Fin y"
    unfolding round64_def Let_def me ab ne
    by (simp only: nlt [unfolded y_def n_def q_def] ps if_False if_True y_def n_def q_def)
  with b1 b2 show ?thesis by blast
qed


lemma round64_zero: "round64 0 = Fin 0"
  by (simp add: round64_def)

lemma L_pos: "0 < 1 - unitRoundoff" and L_le: "1 - unitRoundoff \<le> 1"
  and L_inv: "(1 + unitRoundoff) * (1 - unitRoundoff) \<le> 1"
  by (simp_all add: unitRoundoff_def)

lemma Lk_pos: "0 < (1 - unitRoundoff) ^ k"
  using L_pos by simp

lemma Lk_le: "(1 - unitRoundoff) ^ k \<le> 1"
  using L_pos L_le by (simp add: power_le_one)

lemma Lk_mono: "j \<le> k \<Longrightarrow> (1 - unitRoundoff) ^ k \<le> (1 - unitRoundoff) ^ j"
  using L_pos L_le by (simp add: power_decreasing)

lemma Lk_half:
  assumes "k \<le> 2 ^ 22"
  shows "1 / 2 \<le> (1 - unitRoundoff) ^ k"
proof -
  have "real k \<le> 2 ^ 22" using assms by (metis of_nat_le_iff of_nat_numeral of_nat_power)
  then have "real k * unitRoundoff \<le> 1 / 2" by (simp add: unitRoundoff_def)
  then have "1 / 2 \<le> 1 + real k * (- unitRoundoff)" by simp
  also have "\<dots> \<le> (1 + (- unitRoundoff)) ^ k"
    by (rule Bernoulli_inequality) (simp add: unitRoundoff_def)
  finally show ?thesis by simp
qed

lemma closeTo_refl: "0 \<le> a \<Longrightarrow> closeTo k a a"
  using Lk_le [of k] by (simp add: closeTo_def mult_left_le)

lemma closeTo_nonneg: "0 \<le> a \<Longrightarrow> closeTo k a r \<Longrightarrow> 0 \<le> r"
proof -
  assume a: "0 \<le> a" and c: "closeTo k a r"
  have "0 \<le> a * (1 - unitRoundoff) ^ k" using a Lk_pos [of k] by simp
  also have "\<dots> \<le> r" using c by (simp add: closeTo_def)
  finally show ?thesis .
qed

lemma closeTo_zero: "closeTo k 0 r \<Longrightarrow> r = 0"
proof -
  assume c: "closeTo k 0 r"
  then have "0 \<le> r" and "r * (1 - unitRoundoff) ^ k \<le> 0" by (simp_all add: closeTo_def)
  then show ?thesis using Lk_pos [of k] by (simp add: mult_le_0_iff)
qed

lemma closeTo_mono:
  assumes "j \<le> k" and "0 \<le> a" and "closeTo j a r"
  shows "closeTo k a r"
proof -
  have r: "0 \<le> r" using assms closeTo_nonneg by blast
  have "a * (1 - unitRoundoff) ^ k \<le> a * (1 - unitRoundoff) ^ j"
    using Lk_mono [OF assms(1)] assms(2) by (rule mult_left_mono)
  also have "\<dots> \<le> r" using assms(3) by (simp add: closeTo_def)
  finally have 1: "a * (1 - unitRoundoff) ^ k \<le> r" .
  have "r * (1 - unitRoundoff) ^ k \<le> r * (1 - unitRoundoff) ^ j"
    using Lk_mono [OF assms(1)] r by (rule mult_left_mono)
  also have "\<dots> \<le> a" using assms(3) by (simp add: closeTo_def)
  finally show ?thesis using 1 by (simp add: closeTo_def)
qed

lemma closeTo_add:
  "closeTo k a r \<Longrightarrow> closeTo k b s \<Longrightarrow> closeTo k (a + b) (r + s)"
  by (simp add: closeTo_def distrib_right add_mono)

lemma closeTo_mult:
  assumes "0 \<le> a" and "0 \<le> b" and ca: "closeTo j a r" and cb: "closeTo k b s"
  shows "closeTo (j + k) (a * b) (r * s)"
proof -
  have r: "0 \<le> r" and s: "0 \<le> s" using assms closeTo_nonneg by blast+
  have "(a * (1 - unitRoundoff) ^ j) * (b * (1 - unitRoundoff) ^ k) \<le> r * s"
    using ca cb assms(1,2) Lk_pos [of j] Lk_pos [of k]
    by (intro mult_mono) (simp_all add: closeTo_def r)
  moreover have "(r * (1 - unitRoundoff) ^ j) * (s * (1 - unitRoundoff) ^ k) \<le> a * b"
    using ca cb r s Lk_pos [of j] Lk_pos [of k]
    by (intro mult_mono) (simp_all add: closeTo_def assms(1))
  ultimately show ?thesis by (simp add: closeTo_def power_add mult_ac)
qed

lemma closeTo_div:
  assumes "0 \<le> a" and "0 < b" and ca: "closeTo j a r" and cb: "closeTo k b s"
  shows "closeTo (j + k) (a / b) (r / s)"
proof -
  have r: "0 \<le> r" using assms closeTo_nonneg by blast
  have "0 < b * (1 - unitRoundoff) ^ k" using assms(2) Lk_pos [of k] by simp
  also have "\<dots> \<le> s" using cb by (simp add: closeTo_def)
  finally have s: "0 < s" .
  have "(a * (1 - unitRoundoff) ^ j) * (s * (1 - unitRoundoff) ^ k) \<le> r * b"
    using ca cb assms(1,2) s Lk_pos [of j] Lk_pos [of k]
    by (intro mult_mono) (simp_all add: closeTo_def r)
  then have 1: "a / b * (1 - unitRoundoff) ^ (j + k) \<le> r / s"
    using s assms(2) by (simp add: field_simps power_add)
  have "(r * (1 - unitRoundoff) ^ j) * (b * (1 - unitRoundoff) ^ k) \<le> a * s"
    using ca cb r s assms(1,2) Lk_pos [of j] Lk_pos [of k]
    by (intro mult_mono) (simp_all add: closeTo_def)
  then have "r / s * (1 - unitRoundoff) ^ (j + k) \<le> a / b"
    using s assms(2) by (simp add: field_simps power_add)
  with 1 show ?thesis by (simp add: closeTo_def)
qed

lemma closeTo_half:
  assumes "k \<le> 2 ^ 22" and "0 \<le> a" and c: "closeTo k a r"
  shows "a / 2 \<le> r" and "r \<le> 2 * a"
proof -
  have r: "0 \<le> r" using assms closeTo_nonneg by blast
  have h: "1 / 2 \<le> (1 - unitRoundoff) ^ k" using assms(1) by (rule Lk_half)
  have "a * (1 / 2) \<le> a * (1 - unitRoundoff) ^ k" using h assms(2) by (rule mult_left_mono)
  also have "\<dots> \<le> r" using c by (simp add: closeTo_def)
  finally show "a / 2 \<le> r" by simp
  have "r * (1 / 2) \<le> r * (1 - unitRoundoff) ^ k" using h r by (rule mult_left_mono)
  also have "\<dots> \<le> a" using c by (simp add: closeTo_def)
  finally show "r \<le> 2 * a" by simp
qed

lemma closeTo_round:
  assumes a: "0 \<le> a" and c: "closeTo k a r"
    and lo: "2 powi (- 1022) \<le> r" and hi: "r < 2 powi 1023"
  shows "\<exists>y. round64 r = Fin y \<and> closeTo (Suc k) a y"
proof -
  obtain y where y: "round64 r = Fin y" and b1: "(1 - unitRoundoff) * r \<le> y"
    and b2: "y \<le> (1 + unitRoundoff) * r"
    using round64_near [OF lo hi] by blast
  have r: "0 \<le> r" using a c closeTo_nonneg by blast
  have "a * (1 - unitRoundoff) ^ k * (1 - unitRoundoff) \<le> r * (1 - unitRoundoff)"
    using c L_pos by (simp add: closeTo_def)
  also have "\<dots> \<le> y" using b1 by (simp add: mult.commute)
  finally have 1: "a * (1 - unitRoundoff) ^ Suc k \<le> y" by (simp add: mult_ac)
  have "y * (1 - unitRoundoff) ^ Suc k \<le> ((1 + unitRoundoff) * r) * (1 - unitRoundoff) ^ Suc k"
    using b2 Lk_pos [of "Suc k"] by (simp only: mult_le_cancel_right_pos)
  also have "\<dots> = ((1 + unitRoundoff) * (1 - unitRoundoff)) * (r * (1 - unitRoundoff) ^ k)"
    by (simp add: mult_ac)
  also have "\<dots> \<le> 1 * (r * (1 - unitRoundoff) ^ k)"
    using L_inv r Lk_pos [of k] by (intro mult_right_mono) simp_all
  also have "\<dots> \<le> a" using c by (simp add: closeTo_def)
  finally have "y * (1 - unitRoundoff) ^ Suc k \<le> a" .
  with 1 y show ?thesis by (auto simp: closeTo_def)
qed

lemma two_powi_half: "(2::real) powi k / 2 = 2 powi (k - 1)"
  by (simp add: power_int_diff)

lemma round_close:
  assumes a: "0 \<le> a" and c: "closeTo k a r" and k: "k \<le> 2 ^ 22"
    and range: "a = 0 \<or> (2 powi (- 1021) \<le> a \<and> a \<le> 2 powi 1021)"
  shows "\<exists>y. round64 r = Fin y \<and> closeTo (Suc k) a y"
proof (cases "a = 0")
  case True
  then have "r = 0" using c closeTo_zero by blast
  then show ?thesis using True by (simp add: round64_zero closeTo_def)
next
  case False
  then have lo: "2 powi (- 1021) \<le> a" and hi: "a \<le> 2 powi 1021" using range by blast+
  have "(2::real) powi (- 1021) / 2 = 2 powi (- 1021 - 1)" by (rule two_powi_half)
  moreover have "(- 1021 - 1 :: int) = - 1022" by simp
  ultimately have e1: "(2::real) powi (- 1022) = 2 powi (- 1021) / 2" by (simp only:)
  have "2 powi (- 1021) / 2 \<le> a / 2" using lo by (simp only: divide_le_cancel) simp
  also have "\<dots> \<le> r" using closeTo_half(1) [OF k a c] .
  finally have rl: "2 powi (- 1022) \<le> r" by (simp only: e1)
  have "r \<le> 2 * a" using closeTo_half(2) [OF k a c] .
  also have "\<dots> \<le> 2 * 2 powi 1021" using hi by (simp only: mult_le_cancel_left_pos zero_less_numeral)
  also have "2 * (2::real) powi 1021 = 2 powi (1021 + 1)" by (rule two_powi_double)
  also have "(1021 + 1 :: int) = 1022" by simp
  also have "(2::real) powi 1022 < 2 powi 1023" by (rule power_int_strict_increasing) simp_all
  finally have rh: "r < 2 powi 1023" .
  show ?thesis using closeTo_round [OF a c rl rh] .
qed

lemma two_powi_le: "a \<le> b \<Longrightarrow> (2::real) powi a \<le> 2 powi b"
  by (rule power_int_increasing) simp_all

lemma two_powi_pos: "(0::real) < 2 powi a"
  by (rule zero_less_power_int) simp

lemma count_bound:
  assumes "c \<le> 2 ^ 20" and "0 \<le> A" and "A \<le> real c * 2 powi h"
  shows "A \<le> 2 powi (h + 20)"
proof -
  have "real c \<le> 2 ^ 20" using assms(1) by (metis of_nat_le_iff of_nat_numeral of_nat_power)
  then have "real c * 2 powi h \<le> 2 ^ 20 * 2 powi h"
    using two_powi_pos [of h] by (simp only: mult_le_cancel_right_pos)
  also have "\<dots> = 2 powi (h + 20)"
    by (simp add: power_int_add)
  finally show ?thesis using assms(3) by simp
qed

lemma fold_fadd_close:
  assumes "list_all2 (\<lambda>T d. \<exists>t. d = Fin t \<and> closeTo m T t \<and> (T = 0 \<or> 2 powi (- l) \<le> T)
                              \<and> 0 \<le> T \<and> T \<le> 2 powi h) Ts ds"
    and "closeTo (m + k) A a" and "A = 0 \<or> 2 powi (- l) \<le> A" and "0 \<le> A"
    and "A \<le> real c * 2 powi h"
    and "c + length ds \<le> 2 ^ 20" and "m + k + length ds \<le> 2 ^ 22"
    and "l \<le> 1021" and "h \<le> 1001"
  shows "\<exists>r. foldl fadd (Fin a) ds = Fin r \<and> closeTo (m + k + length ds) (A + sum_list Ts) r"
  using assms
proof (induction Ts ds arbitrary: A a k c rule: list_all2_induct)
  case Nil
  then show ?case by simp
next
  case (Cons T Ts d ds)
  from Cons.hyps(1) obtain t where d: "d = Fin t" and ct: "closeTo m T t"
    and Tl: "T = 0 \<or> 2 powi (- l) \<le> T" and T0: "0 \<le> T" and Th: "T \<le> 2 powi h"
    by blast
  have A0: "0 \<le> A" by (rule Cons.prems(3))
  have "closeTo (m + k) T t" using _ T0 ct by (rule closeTo_mono) simp
  with Cons.prems(1) have cs: "closeTo (m + k) (A + T) (a + t)" by (rule closeTo_add)
  have s0: "0 \<le> A + T" using A0 T0 by simp
  have sl: "A + T = 0 \<or> 2 powi (- l) \<le> A + T"
  proof (cases "A = 0")
    case True
    then show ?thesis using Tl by simp
  next
    case False
    then have "2 powi (- l) \<le> A" using Cons.prems(2) by blast
    then have "2 powi (- l) \<le> A + T" using T0 by linarith
    then show ?thesis ..
  qed
  have "A + T \<le> real c * 2 powi h + 2 powi h" using Cons.prems(4) Th by (rule add_mono)
  also have "\<dots> = real (Suc c) * 2 powi h" by (simp add: distrib_right)
  finally have su: "A + T \<le> real (Suc c) * 2 powi h" .
  have "Suc c \<le> 2 ^ 20" using Cons.prems(5) by simp
  then have "A + T \<le> 2 powi (h + 20)" using s0 su by (rule count_bound)
  also have "\<dots> \<le> 2 powi 1021" using Cons.prems(8) by (intro two_powi_le) simp
  finally have sh: "A + T \<le> 2 powi 1021" .
  have "(2::real) powi (- 1021) \<le> 2 powi (- l)" using Cons.prems(7) by (intro two_powi_le) simp
  then have range: "A + T = 0 \<or> (2 powi (- 1021) \<le> A + T \<and> A + T \<le> 2 powi 1021)"
    using sl sh by (meson order_trans)
  have k: "m + k \<le> 2 ^ 22" using Cons.prems(6) by simp
  obtain y where y: "round64 (a + t) = Fin y" and cy: "closeTo (Suc (m + k)) (A + T) y"
    using round_close [OF s0 cs k range] by blast
  have cy': "closeTo (m + Suc k) (A + T) y" using cy by simp
  have c5: "Suc c + length ds \<le> 2 ^ 20" using Cons.prems(5) by simp
  have c6: "m + Suc k + length ds \<le> 2 ^ 22" using Cons.prems(6) by simp
  obtain r where r: "foldl fadd (Fin y) ds = Fin r"
      and cr: "closeTo (m + Suc k + length ds) (A + T + sum_list Ts) r"
    using Cons.IH [OF cy' sl s0 su c5 c6 Cons.prems(7) Cons.prems(8)] by blast
  have f: "foldl fadd (Fin a) (d # ds) = foldl fadd (Fin y) ds" by (simp add: d y)
  have e1: "m + Suc k + length ds = m + k + length (d # ds)" by simp
  have e2: "A + T + sum_list Ts = A + sum_list (T # Ts)" by simp
  show ?case using r cr unfolding f e1 e2 by blast
qed

text \<open>The doubles that the decimal literals of the sources denote.\<close>

lemmas binary64 = round64_def exponentOf_def roundHalfEven_def Let_def compute_bitlen

lemma lit_values:
  "lit (1 / 10) = Fin (3602879701896397 / 36028797018963968)"
  "lit (1 / 5) = Fin (3602879701896397 / 18014398509481984)"
  "lit (3 / 10) = Fin (5404319552844595 / 18014398509481984)"
  "lit (2 / 5) = Fin (3602879701896397 / 9007199254740992)"
  "lit (1 / 2) = Fin (1 / 2)"
  "lit (3 / 5) = Fin (5404319552844595 / 9007199254740992)"
  "lit (7 / 10) = Fin (3152519739159347 / 4503599627370496)"
  "lit (4 / 5) = Fin (3602879701896397 / 4503599627370496)"
  "lit (9 / 10) = Fin (8106479329266893 / 9007199254740992)"
  "lit 1 = Fin 1"
  by (simp_all add: lit_def binary64)

lemma round64_one [simp]: "round64 1 = Fin 1"
  by (simp add: binary64)

section \<open>Tuners: results\<close>

text \<open>
  Claim C8, as amended. Whichever of the five fields \<open>setTuner\<close> writes, the value it
  stores is the input clamped to the interval from 0 to 1 whenever the input is not
  NaN: a finite input \<open>y\<close> is stored as \<open>max 0 (min 1 y)\<close>, positive infinity as 1,
  negative infinity as 0; out-of-range input is corrected, never rejected. A density
  of 1.7 is stored as exactly 1, a density of -3 as exactly 0. NaN is the exception:
  \<open>Math.min\<close> and \<open>Math.max\<close> return NaN when an argument is NaN, so NaN is stored as
  it is.
\<close>

theorem setTuner_clamps:
  "setTuner key (Fin y) prev key = Fin (max 0 (min 1 y))
   \<and> setTuner key PosInf prev key = Fin 1
   \<and> setTuner key NegInf prev key = Fin 0
   \<and> (v \<noteq> NaN \<longrightarrow> (\<exists>x. setTuner key v prev key = Fin x \<and> 0 \<le> x \<and> x \<le> 1))
   \<and> setTuner Density (lit 1.7) prev Density = Fin 1
   \<and> setTuner Density (lit (- 3)) prev Density = Fin 0
   \<and> setTuner key NaN prev key = NaN"
proof -
  have finite: "setTuner key (Fin z) prev key = Fin (max 0 (min 1 z))" for z
    by (simp add: setTuner_def mathMax_def mathMin_def max_def min_def)
  have pos: "setTuner key PosInf prev key = Fin 1"
    by (simp add: setTuner_def mathMax_def mathMin_def)
  have neg: "setTuner key NegInf prev key = Fin 0"
    by (simp add: setTuner_def mathMax_def mathMin_def)
  have nan: "setTuner key NaN prev key = NaN"
    by (simp add: setTuner_def mathMax_def mathMin_def)
  have range: "v \<noteq> NaN \<longrightarrow> (\<exists>x. setTuner key v prev key = Fin x \<and> 0 \<le> x \<and> x \<le> 1)"
    by (cases v) (simp_all add: finite pos neg)
  have high: "lit 1.7 = Fin (7656119366529843 / 4503599627370496)"
    by (simp add: lit_def binary64)
  have low: "lit (- 3) = Fin (- 3)"
    by (simp add: lit_def binary64)
  have over: "setTuner Density (lit 1.7) prev Density = Fin 1"
    unfolding high by (simp add: setTuner_def mathMax_def mathMin_def)
  have under: "setTuner Density (lit (- 3)) prev Density = Fin 0"
    unfolding low by (simp add: setTuner_def mathMax_def mathMin_def)
  from finite pos neg range over under nan show ?thesis by blast
qed

theorem setTuner_clamps_witness:
  "lit 1.7 \<noteq> NaN
   \<and> (\<exists>x. setTuner Density (lit 1.7) halfTuners Density = Fin x \<and> 0 \<le> x \<and> x \<le> 1)"
proof -
  have "lit 1.7 = Fin (7656119366529843 / 4503599627370496)"
    by (simp add: lit_def binary64)
  then have "lit 1.7 \<noteq> NaN" by simp
  with setTuner_clamps [of Density 0 halfTuners "lit 1.7"] show ?thesis by blast
qed

text \<open>
  The claim as stated has every input clamped into the interval. At the input NaN
  the value stored is NaN, which is no number of the interval.
\<close>

theorem setTuner_stores_NaN:
  "setTuner Density NaN halfTuners Density = NaN
   \<and> \<not> (\<exists>x. setTuner Density NaN halfTuners Density = Fin x \<and> 0 \<le> x \<and> x \<le> 1)"
  by (simp add: setTuner_def mathMax_def mathMin_def)

lemma searchParamsGet_set_same: "searchParamsGet k (searchParamsSet k v ps) = Some v"
  by (induction ps) (simp_all add: searchParamsGet_def)

lemma map_of_filter_other:
  "k' \<noteq> k \<Longrightarrow> map_of (filter (\<lambda>q. fst q \<noteq> k) ps) k' = map_of ps k'"
  by (induction ps) auto

lemma searchParamsGet_set_other:
  "k' \<noteq> k \<Longrightarrow> searchParamsGet k' (searchParamsSet k v ps) = searchParamsGet k' ps"
  by (induction ps) (auto simp: searchParamsGet_def map_of_filter_other)

lemma tunerName_inj: "(tunerName a = tunerName b) = (a = b)"
  by (cases a; cases b; simp add: tunerName_def)

lemma get_after_sync:
  "searchParamsGet (tunerName key)
     (fold (\<lambda>k. searchParamsSet (tunerName k) (toFixed1 (v k))) tunerKeys ps)
   = Some (toFixed1 (v key))"
  by (cases key)
     (simp_all add: tunerKeys_def searchParamsGet_set_same searchParamsGet_set_other tunerName_inj)

lemma decimal_digit: "n < 10 \<Longrightarrow> decimal n = [digit_char n]"
  by (simp add: decimal.simps)

lemma upto_ten:
  "n \<le> 10 \<Longrightarrow> n \<in> set [0, 1, 2, 3, 4, 5, 6, 7, 8, 9, 10 :: nat]"
  by (simp, arith)

lemma parse_tenths:
  assumes "n \<le> 10"
  shows "parseDecimal (decimal (n div 10) @ ''.'' @ [digit_char (n mod 10)]) = Some (real n / 10)"
  using upto_ten [OF assms] unfolding list.set insert_iff empty_iff
  by (elim disjE FalseE)
     (simp_all add: decimal_digit digit_char_def parseDecimal_def parseUnsigned_def
        isDigit_def digitsValue_def)

lemma tenth_bounds:
  assumes "0 \<le> x" and "x \<le> 1"
  shows "0 \<le> \<lfloor>x * 10 + 1 / 2\<rfloor>" and "\<lfloor>x * 10 + 1 / 2\<rfloor> \<le> 10"
  using assms by (simp_all add: floor_le_iff le_floor_iff)

lemma toFixed1_unit:
  assumes "0 \<le> x" and "x \<le> 1"
  shows "toFixed1 x = decimal (nat \<lfloor>x * 10 + 1 / 2\<rfloor> div 10) @ ''.''
                        @ [digit_char (nat \<lfloor>x * 10 + 1 / 2\<rfloor> mod 10)]"
  using assms by (simp add: toFixed1_def Let_def)

lemma parse_toFixed1:
  assumes "0 \<le> x" and "x \<le> 1"
  shows "parseDecimal (toFixed1 x) = Some (roundToTenth x)"
proof -
  let ?n = "nat \<lfloor>x * 10 + 1 / 2\<rfloor>"
  have n: "?n \<le> 10" using tenth_bounds [OF assms] by linarith
  have r: "real ?n = real_of_int \<lfloor>x * 10 + 1 / 2\<rfloor>" using tenth_bounds [OF assms] by simp
  show ?thesis
    using parse_tenths [OF n] r by (simp add: roundToTenth_def toFixed1_unit [OF assms])
qed

lemma roundToTenth_range:
  assumes "0 \<le> x" and "x \<le> 1"
  shows "0 \<le> roundToTenth x \<and> roundToTenth x \<le> 1"
  using tenth_bounds [OF assms] by (simp add: roundToTenth_def)

lemma toFixed1_shape:
  assumes "0 \<le> x" and "x \<le> 1"
  shows "toFixed1 x \<in> set [''0.0'', ''0.1'', ''0.2'', ''0.3'', ''0.4'', ''0.5'', ''0.6'',
                            ''0.7'', ''0.8'', ''0.9'', ''1.0'']"
proof -
  let ?n = "nat \<lfloor>x * 10 + 1 / 2\<rfloor>"
  have n: "?n \<le> 10" using tenth_bounds [OF assms] by linarith
  have "?n \<in> set [0, 1, 2, 3, 4, 5, 6, 7, 8, 9, 10 :: nat]"
    using n by (rule upto_ten)
  then show ?thesis
    unfolding toFixed1_unit [OF assms] list.set insert_iff empty_iff
    by (elim disjE FalseE) (simp_all add: decimal_digit digit_char_def)
qed

text \<open>
  Claim C9. \<open>syncToURL\<close> writes one flat entry per tuner field, under the field's
  name, formatted to one decimal place (onto an empty query: exactly these five
  entries, in the order of the fields). For valid tuner values, whatever the query
  held before, reading the entries back gives every field rounded to one decimal
  place.
\<close>

theorem tuner_url_round_trip:
  "syncToURL v (Some []) =
     Some [(''abstraction'', toFixed1 (v Abstraction)), (''density'', toFixed1 (v Density)),
           (''motion'', toFixed1 (v Motion)), (''contrast'', toFixed1 (v Contrast)),
           (''narrative'', toFixed1 (v Narrative))]
   \<and> ((\<forall>k. 0 \<le> v k \<and> v k \<le> 1) \<longrightarrow>
        (\<exists>ps. syncToURL v (Some params) = Some ps
           \<and> (\<forall>key. searchParamsGet (tunerName key) ps = Some (toFixed1 (v key))
                  \<and> toFixed1 (v key) \<in> set [''0.0'', ''0.1'', ''0.2'', ''0.3'', ''0.4'', ''0.5'',
                                             ''0.6'', ''0.7'', ''0.8'', ''0.9'', ''1.0'']
                  \<and> parseTunersFromURL ps key = Some (roundToTenth (v key)))))"
proof (intro conjI impI)
  show "syncToURL v (Some []) =
     Some [(''abstraction'', toFixed1 (v Abstraction)), (''density'', toFixed1 (v Density)),
           (''motion'', toFixed1 (v Motion)), (''contrast'', toFixed1 (v Contrast)),
           (''narrative'', toFixed1 (v Narrative))]"
    by (simp add: syncToURL_def tunerKeys_def tunerName_def)
next
  assume valid: "\<forall>k. 0 \<le> v k \<and> v k \<le> 1"
  let ?ps = "fold (\<lambda>k. searchParamsSet (tunerName k) (toFixed1 (v k))) tunerKeys params"
  have s: "syncToURL v (Some params) = Some ?ps"
    by (simp add: syncToURL_def)
  have "searchParamsGet (tunerName key) ?ps = Some (toFixed1 (v key))
        \<and> toFixed1 (v key) \<in> set [''0.0'', ''0.1'', ''0.2'', ''0.3'', ''0.4'', ''0.5'',
                                   ''0.6'', ''0.7'', ''0.8'', ''0.9'', ''1.0'']
        \<and> parseTunersFromURL ?ps key = Some (roundToTenth (v key))" for key
  proof -
    have b: "0 \<le> v key" "v key \<le> 1" using valid by simp_all
    show ?thesis
      using toFixed1_shape [OF b] roundToTenth_range [OF b]
      by (simp add: get_after_sync parseTunersFromURL_def parse_toFixed1 [OF b])
  qed
  with s show "\<exists>ps. syncToURL v (Some params) = Some ps
           \<and> (\<forall>key. searchParamsGet (tunerName key) ps = Some (toFixed1 (v key))
                  \<and> toFixed1 (v key) \<in> set [''0.0'', ''0.1'', ''0.2'', ''0.3'', ''0.4'', ''0.5'',
                                             ''0.6'', ''0.7'', ''0.8'', ''0.9'', ''1.0'']
                  \<and> parseTunersFromURL ps key = Some (roundToTenth (v key)))"
    by blast
qed

theorem tuner_url_round_trip_witness:
  "list_all (\<lambda>k. 0 \<le> sampleTuners k \<and> sampleTuners k \<le> 1) tunerKeys
   \<and> syncToURL sampleTuners (Some sampleQuery)
       = Some [(''theme'', ''chronicle-dark''), (''density'', ''0.3''), (''abstraction'', ''0.5''),
               (''motion'', ''1.0''), (''contrast'', ''0.0''), (''narrative'', ''0.5'')]
   \<and> parseTunersFromURL (the (syncToURL sampleTuners (Some sampleQuery))) Density
       = Some (roundToTenth 0.25)
   \<and> roundToTenth 0.25 = 0.3
   \<and> parseTunersFromURL (the (syncToURL sampleTuners (Some sampleQuery))) Motion = Some 1"
proof -
  have valid: "\<forall>k. 0 \<le> sampleTuners k \<and> sampleTuners k \<le> 1"
  proof
    fix k show "0 \<le> sampleTuners k \<and> sampleTuners k \<le> 1"
      by (cases k) (simp_all add: sampleTuners_def DEFAULT_TUNERS_def)
  qed
  have fmt: "toFixed1 (1 / 4) = ''0.3''" "toFixed1 (1 / 2) = ''0.5''"
    "toFixed1 1 = ''1.0''" "toFixed1 0 = ''0.0''"
    by (simp_all add: toFixed1_def decimal.simps digit_char_def)
  have url: "syncToURL sampleTuners (Some sampleQuery)
       = Some [(''theme'', ''chronicle-dark''), (''density'', ''0.3''), (''abstraction'', ''0.5''),
               (''motion'', ''1.0''), (''contrast'', ''0.0''), (''narrative'', ''0.5'')]"
    by (simp add: syncToURL_def sampleTuners_def DEFAULT_TUNERS_def sampleQuery_def tunerKeys_def
        tunerName_def fmt)
  have r: "roundToTenth 0.25 = 0.3" "roundToTenth 1 = 1"
    by (simp_all add: roundToTenth_def)
  from tuner_url_round_trip [of sampleTuners sampleQuery] valid
  have "parseTunersFromURL (the (syncToURL sampleTuners (Some sampleQuery))) Density
          = Some (roundToTenth (sampleTuners Density))"
    and "parseTunersFromURL (the (syncToURL sampleTuners (Some sampleQuery))) Motion
          = Some (roundToTenth (sampleTuners Motion))"
    by auto
  then show ?thesis
    using url r valid by (simp add: sampleTuners_def tunerKeys_def)
qed

section \<open>Taste blending: results\<close>

text \<open>
  Every number the blend computes is within a counted number of roundings of the
  exact quantity it stands for, as long as the exact quantities stay in the normal
  range.
\<close>

lemma powi_div_range:
  fixes x y :: real
  assumes "2 powi a \<le> x" and "x \<le> 2 powi b" and "2 powi c \<le> y" and "y \<le> 2 powi d"
  shows "2 powi (a - d) \<le> x / y" and "x / y \<le> 2 powi (b - c)"
proof -
  have y: "0 < y" using two_powi_pos [of c] assms(3) by linarith
  have x: "0 \<le> x" using two_powi_pos [of a] assms(1) by linarith
  have "2 powi a / 2 powi d \<le> x / y"
    by (rule frac_le [OF x assms(1) y assms(4)])
  then show "2 powi (a - d) \<le> x / y" by (simp add: power_int_diff)
  have "x / y \<le> 2 powi b / 2 powi c"
    by (rule frac_le [OF less_imp_le [OF two_powi_pos] assms(2) two_powi_pos assms(3)])
  then show "x / y \<le> 2 powi (b - c)" by (simp add: power_int_diff)
qed

lemma powi_mult_range:
  fixes x y :: real
  assumes "2 powi a \<le> x" and "x \<le> 2 powi b" and "2 powi c \<le> y" and "y \<le> 2 powi d"
  shows "2 powi (a + c) \<le> x * y" and "x * y \<le> 2 powi (b + d)"
proof -
  have y: "0 \<le> y" using two_powi_pos [of c] assms(3) by linarith
  have x: "0 \<le> x" using two_powi_pos [of a] assms(1) by linarith
  have "2 powi a * 2 powi c \<le> x * y"
    by (rule mult_mono [OF assms(1) assms(3) x less_imp_le [OF two_powi_pos]])
  then show "2 powi (a + c) \<le> x * y" by (simp add: power_int_add)
  have "x * y \<le> 2 powi b * 2 powi d"
    by (rule mult_mono [OF assms(2) assms(4) less_imp_le [OF two_powi_pos] y])
  then show "x * y \<le> 2 powi (b + d)" by (simp add: power_int_add)
qed

lemma term_close:
  assumes Wl: "2 powi (- l) \<le> W" and Wh: "W \<le> 2 powi (h + 20)"
    and cW: "closeTo n W Wc" and n: "n \<le> 2 ^ 20"
    and w: "w = 0 \<or> (2 powi (- l) \<le> w \<and> w \<le> 2 powi h)"
    and vl: "2 powi (- g) \<le> v" and vh: "v \<le> 2 powi 0"
    and exps: "0 \<le> l" "0 \<le> h" "0 \<le> g" "l + h + 20 + g \<le> 1021"
  shows "\<exists>t. fmul (Fin v) (fdiv (Fin w) (Fin Wc)) = Fin t \<and> closeTo (n + 2) (v * w / W) t
           \<and> (v * w / W = 0 \<or> 2 powi (- (l + h + 20 + g)) \<le> v * w / W)
           \<and> 0 \<le> v * w / W \<and> v * w / W \<le> 2 powi (h + l)"
proof -
  have Wpos: "0 < W" using two_powi_pos [of "- l"] Wl by linarith
  have n22: "n \<le> 2 ^ 22" using n by simp
  have "W / 2 \<le> Wc" using n22 _ cW by (rule closeTo_half) (use Wpos in simp)
  then have Wc: "0 < Wc" using Wpos by linarith
  have vpos: "0 < v" using two_powi_pos [of "- g"] vl by linarith
  show ?thesis
  proof (cases "w = 0")
    case True
    have "fmul (Fin v) (fdiv (Fin w) (Fin Wc)) = Fin 0"
      using Wc by (simp add: True round64_zero)
    moreover have "closeTo (n + 2) 0 0" by (simp add: closeTo_def)
    moreover have "(0::real) \<le> 2 powi (h + l)" using two_powi_pos [of "h + l"] by linarith
    ultimately show ?thesis by (simp add: True)
  next
    case False
    then have wl: "2 powi (- l) \<le> w" and wh: "w \<le> 2 powi h" using w by blast+
    have wpos: "0 < w" using two_powi_pos [of "- l"] wl by linarith
    define Q where "Q = w / W"
    have Ql: "2 powi (- l - (h + 20)) \<le> Q" and Qh: "Q \<le> 2 powi (h - (- l))"
      unfolding Q_def using powi_div_range [OF wl wh Wl Wh] by blast+
    have Q0: "0 \<le> Q" using wpos Wpos by (simp add: Q_def)
    have "closeTo 0 w w" using wpos by (intro closeTo_refl) simp
    then have "closeTo (0 + n) (w / W) (w / Wc)"
      using cW wpos Wpos by (intro closeTo_div) simp_all
    then have cq: "closeTo n Q (w / Wc)" by (simp add: Q_def)
    have "(2::real) powi (- 1021) \<le> 2 powi (- l - (h + 20))"
      using exps by (intro two_powi_le) simp
    moreover have "(2::real) powi (h - (- l)) \<le> 2 powi 1021"
      using exps by (intro two_powi_le) simp
    ultimately have "2 powi (- 1021) \<le> Q \<and> Q \<le> 2 powi 1021"
      using Ql Qh by (meson order_trans)
    then have "Q = 0 \<or> (2 powi (- 1021) \<le> Q \<and> Q \<le> 2 powi 1021)" ..
    from round_close [OF Q0 cq n22 this]
    obtain q where q: "round64 (w / Wc) = Fin q" and cq': "closeTo (Suc n) Q q" by blast
    define P where "P = v * Q"
    have Pl: "2 powi (- g + (- l - (h + 20))) \<le> P" and Ph: "P \<le> 2 powi (0 + (h - (- l)))"
      unfolding P_def using powi_mult_range [OF vl vh Ql Qh] by blast+
    have P0: "0 \<le> P" using vpos Q0 by (simp add: P_def)
    have "closeTo 0 v v" using vpos by (intro closeTo_refl) simp
    then have "closeTo (0 + Suc n) (v * Q) (v * q)"
      using cq' vpos Q0 by (intro closeTo_mult) simp_all
    then have cp: "closeTo (Suc n) P (v * q)" by (simp add: P_def)
    have sn: "Suc n \<le> 2 ^ 22" using n by simp
    have "(2::real) powi (- 1021) \<le> 2 powi (- g + (- l - (h + 20)))"
      using exps by (intro two_powi_le) simp
    moreover have "(2::real) powi (0 + (h - (- l))) \<le> 2 powi 1021"
      using exps by (intro two_powi_le) simp
    ultimately have "2 powi (- 1021) \<le> P \<and> P \<le> 2 powi 1021"
      using Pl Ph by (meson order_trans)
    then have "P = 0 \<or> (2 powi (- 1021) \<le> P \<and> P \<le> 2 powi 1021)" ..
    from round_close [OF P0 cp sn this]
    obtain t where t: "round64 (v * q) = Fin t" and ct: "closeTo (Suc (Suc n)) P t" by blast
    have PP: "v * w / W = P" by (simp add: P_def Q_def)
    have e1: "- g + (- l - (h + 20)) = - (l + h + 20 + g)" by simp
    have e2: "0 + (h - (- l)) = h + l" by simp
    have "fmul (Fin v) (fdiv (Fin w) (Fin Wc)) = Fin t"
      using Wc by (simp add: q t)
    moreover have "closeTo (n + 2) P t" using ct by simp
    ultimately show ?thesis
      unfolding PP using Pl Ph P0 unfolding e1 e2 by blast
  qed
qed

lemma sum_list_divide: "(\<Sum>x\<leftarrow>xs. g x / (c::real)) = (\<Sum>x\<leftarrow>xs. g x) / c"
  by (induction xs) (simp_all add: add_divide_distrib)

lemma weights_sum_range:
  assumes "list_all (\<lambda>w. w = 0 \<or> (2 powi (- l) \<le> w \<and> w \<le> 2 powi h)) ws"
  shows "0 \<le> sum_list ws \<and> (sum_list ws = 0 \<or> 2 powi (- l) \<le> sum_list ws)
         \<and> sum_list ws \<le> real (length ws) * 2 powi h"
  using assms
proof (induction ws)
  case Nil
  then show ?case by simp
next
  case (Cons w ws)
  have p: "(0::real) < 2 powi (- l)" "(0::real) < 2 powi h" by (rule two_powi_pos)+
  from Cons.prems have w: "w = 0 \<or> (2 powi (- l) \<le> w \<and> w \<le> 2 powi h)" by simp
  have w0: "0 \<le> w"
  proof (cases "w = 0")
    case False
    then have "2 powi (- l) \<le> w" using w by blast
    with p(1) show ?thesis by linarith
  qed simp
  have wh: "w \<le> 2 powi h"
  proof (cases "w = 0")
    case True
    then show ?thesis using p(2) by linarith
  next
    case False
    then show ?thesis using w by blast
  qed
  from Cons have ih: "0 \<le> sum_list ws" "sum_list ws = 0 \<or> 2 powi (- l) \<le> sum_list ws"
      "sum_list ws \<le> real (length ws) * 2 powi h" by simp_all
  have 1: "w + sum_list ws = 0 \<or> 2 powi (- l) \<le> w + sum_list ws"
  proof (cases "w = 0")
    case True
    then show ?thesis using ih(2) by simp
  next
    case False
    then have "2 powi (- l) \<le> w" using w by blast
    then have "2 powi (- l) \<le> w + sum_list ws" using ih(1) by linarith
    then show ?thesis ..
  qed
  have "w + sum_list ws \<le> 2 powi h + real (length ws) * 2 powi h"
    using wh ih(3) by (rule add_mono)
  also have "\<dots> = real (Suc (length ws)) * 2 powi h" by (simp add: distrib_right)
  finally have 2: "w + sum_list ws \<le> real (Suc (length ws)) * 2 powi h" .
  have 3: "0 \<le> w + sum_list ws" using w0 ih(1) by simp
  show ?case using 1 2 3 by simp
qed

lemma valueOf_Fin: "valueOf (Fin x) = x"
  by (simp add: valueOf_def)

lemma weight_facts:
  assumes "weightInRange d"
  shows "\<exists>w. d = Fin w \<and> valueOf d = w \<and> 0 \<le> w \<and> w \<le> 2 powi 300
             \<and> (w = 0 \<or> (2 powi (- 300) \<le> w \<and> w \<le> 2 powi 300))"
proof (cases d)
  case (Fin w)
  from assms have r: "w = 0 \<or> (2 powi (- 300) \<le> w \<and> w \<le> 2 powi 300)"
    unfolding weightInRange_def Fin by (simp only: double.case)
  have p: "(0::real) < 2 powi (- 300)" "(0::real) < 2 powi 300" by (rule two_powi_pos)+
  have "0 \<le> w"
  proof (cases "w = 0")
    case False
    then have "2 powi (- 300) \<le> w" using r by blast
    with p(1) show ?thesis by linarith
  qed simp
  moreover have "w \<le> 2 powi 300"
  proof (cases "w = 0")
    case True
    then show ?thesis using p(2) by linarith
  next
    case False
    then show ?thesis using r by blast
  qed
  moreover have "valueOf d = w" by (simp add: Fin valueOf_def)
  ultimately show ?thesis using Fin r by blast
next
  case PosInf
  with assms show ?thesis unfolding weightInRange_def by (simp only: double.case)
next
  case NegInf
  with assms show ?thesis unfolding weightInRange_def by (simp only: double.case)
next
  case NaN
  with assms show ?thesis unfolding weightInRange_def by (simp only: double.case)
qed

lemma total_close:
  assumes ws: "list_all (\<lambda>pw. weightInRange (snd pw)) ps" and len: "length ps \<le> 2 ^ 20"
  shows "\<exists>Wc. foldl fadd (Fin 0) (map snd ps) = Fin Wc
           \<and> closeTo (length ps) (\<Sum>pw\<leftarrow>ps. valueOf (snd pw)) Wc"
proof -
  have each: "list_all2 (\<lambda>T d. \<exists>t. d = Fin t \<and> closeTo 0 T t \<and> (T = 0 \<or> 2 powi (- 300) \<le> T)
                              \<and> 0 \<le> T \<and> T \<le> 2 powi 300)
                (map (\<lambda>pw. valueOf (snd pw)) ps) (map snd ps)"
    unfolding list.rel_map
  proof (rule list.rel_refl_strong)
    fix pw assume "pw \<in> set ps"
    then have "weightInRange (snd pw)" using ws by (simp add: list_all_iff)
    then obtain w where w: "snd pw = Fin w" "valueOf (snd pw) = w" "0 \<le> w" "w \<le> 2 powi 300"
        "w = 0 \<or> (2 powi (- 300) \<le> w \<and> w \<le> 2 powi 300)"
      using weight_facts by blast
    have "closeTo 0 w w" using w(3) by (rule closeTo_refl)
    then show "\<exists>t. snd pw = Fin t \<and> closeTo 0 (valueOf (snd pw)) t
        \<and> (valueOf (snd pw) = 0 \<or> 2 powi (- 300) \<le> valueOf (snd pw))
        \<and> 0 \<le> valueOf (snd pw) \<and> valueOf (snd pw) \<le> 2 powi 300"
      unfolding w(2) using w(1,3,4,5) by blast
  qed
  have c0: "closeTo (0 + 0) 0 0" by (simp add: closeTo_def)
  have z: "(0::real) = 0 \<or> 2 powi (- 300) \<le> (0::real)" by simp
  have b: "(0::real) \<le> real 0 * 2 powi 300" by simp
  have l1: "0 + length (map snd ps) \<le> 2 ^ 20" using len by simp
  have l2: "0 + 0 + length (map snd ps) \<le> 2 ^ 22" using len by simp
  have "\<exists>r. foldl fadd (Fin 0) (map snd ps) = Fin r
          \<and> closeTo (0 + 0 + length (map snd ps)) (0 + sum_list (map (\<lambda>pw. valueOf (snd pw)) ps)) r"
    by (rule fold_fadd_close [OF each c0 z order_refl b l1 l2]) simp_all
  then show ?thesis by simp
qed

lemma blendField_close:
  assumes ws: "list_all (\<lambda>pw. weightInRange (snd pw)) ps"
    and fs: "list_all (\<lambda>pw. \<exists>v. f (fst pw) = Fin v \<and> 2 powi (- 3) \<le> v \<and> v \<le> 2 powi 0) ps"
    and pos: "0 < (\<Sum>pw\<leftarrow>ps. valueOf (snd pw))"
    and len: "length ps \<le> 2 ^ 20"
  shows "\<exists>Wc. foldl fadd (Fin 0) (map snd ps) = Fin Wc
           \<and> (\<exists>r. blendField f (Fin Wc) ps = Fin r
                 \<and> closeTo (2 * length ps + 2) (weightedAverage f ps) r)"
proof -
  define W where "W = (\<Sum>pw\<leftarrow>ps. valueOf (snd pw))"
  define n where "n = length ps"
  obtain Wc where Wc: "foldl fadd (Fin 0) (map snd ps) = Fin Wc" and cW: "closeTo n W Wc"
    using total_close [OF ws len] unfolding W_def n_def by blast
  have n: "n \<le> 2 ^ 20" using len by (simp add: n_def)
  have "list_all (\<lambda>w. w = 0 \<or> (2 powi (- 300) \<le> w \<and> w \<le> 2 powi 300))
          (map (\<lambda>pw. valueOf (snd pw)) ps)"
    unfolding list_all_iff
  proof
    fix w assume "w \<in> set (map (\<lambda>pw. valueOf (snd pw)) ps)"
    then obtain pw where "pw \<in> set ps" and w: "w = valueOf (snd pw)" by auto
    then have "weightInRange (snd pw)" using ws by (simp add: list_all_iff)
    then show "w = 0 \<or> (2 powi (- 300) \<le> w \<and> w \<le> 2 powi 300)"
      using weight_facts w by blast
  qed
  from weights_sum_range [OF this]
  have W0: "0 \<le> W" and Wz: "W = 0 \<or> 2 powi (- 300) \<le> W" and Wn: "W \<le> real n * 2 powi 300"
    by (simp_all only: W_def n_def length_map)
  have Wpos: "0 < W" using pos by (simp add: W_def)
  then have Wl: "2 powi (- 300) \<le> W" using Wz by blast
  have Wh: "W \<le> 2 powi (300 + 20)" using n W0 Wn by (rule count_bound)
  define g where "g = (\<lambda>pw. fmul (f (fst pw)) (fdiv (snd pw) (Fin Wc)))"
  define T where "T = (\<lambda>pw. valueOf (f (fst pw)) * valueOf (snd pw) / W)"
  have each: "list_all2 (\<lambda>T d. \<exists>t. d = Fin t \<and> closeTo (n + 2) T t
                  \<and> (T = 0 \<or> 2 powi (- (300 + 300 + 20 + 3)) \<le> T)
                  \<and> 0 \<le> T \<and> T \<le> 2 powi (300 + 300)) (map T ps) (map g ps)"
    unfolding list.rel_map
  proof (rule list.rel_refl_strong)
    fix pw assume m: "pw \<in> set ps"
    then have "weightInRange (snd pw)" using ws by (simp add: list_all_iff)
    then obtain w where w: "snd pw = Fin w" "valueOf (snd pw) = w"
        "w = 0 \<or> (2 powi (- 300) \<le> w \<and> w \<le> 2 powi 300)"
      using weight_facts by blast
    from m fs obtain v where v: "f (fst pw) = Fin v" "2 powi (- 3) \<le> v" "v \<le> 2 powi 0"
      unfolding list_all_iff by blast
    have vv: "valueOf (f (fst pw)) = v" by (simp add: v(1) valueOf_def)
    have "\<exists>t. fmul (Fin v) (fdiv (Fin w) (Fin Wc)) = Fin t \<and> closeTo (n + 2) (v * w / W) t
           \<and> (v * w / W = 0 \<or> 2 powi (- (300 + 300 + 20 + 3)) \<le> v * w / W)
           \<and> 0 \<le> v * w / W \<and> v * w / W \<le> 2 powi (300 + 300)"
      by (rule term_close [OF Wl Wh cW n w(3) v(2) v(3)]) simp_all
    then show "\<exists>t. g pw = Fin t \<and> closeTo (n + 2) (T pw) t
                  \<and> (T pw = 0 \<or> 2 powi (- (300 + 300 + 20 + 3)) \<le> T pw)
                  \<and> 0 \<le> T pw \<and> T pw \<le> 2 powi (300 + 300)"
      unfolding g_def T_def w(1) v(1) valueOf_Fin .
  qed
  have c0: "closeTo (n + 2 + 0) 0 0" by (simp add: closeTo_def)
  have z: "(0::real) = 0 \<or> 2 powi (- (300 + 300 + 20 + 3)) \<le> (0::real)" by simp
  have b: "(0::real) \<le> real 0 * 2 powi (300 + 300)" by simp
  have l1: "0 + length (map g ps) \<le> 2 ^ 20" using len by simp
  have l2: "n + 2 + 0 + length (map g ps) \<le> 2 ^ 22" using len by (simp add: n_def)
  have "\<exists>r. foldl fadd (Fin 0) (map g ps) = Fin r
          \<and> closeTo (n + 2 + 0 + length (map g ps)) (0 + sum_list (map T ps)) r"
    by (rule fold_fadd_close [OF each c0 z order_refl b l1 l2]) simp_all
  then obtain r where r: "foldl fadd (Fin 0) (map g ps) = Fin r"
    and cr: "closeTo (n + 2 + 0 + length (map g ps)) (0 + sum_list (map T ps)) r" by blast
  have "blendField f (Fin Wc) ps = foldl fadd (Fin 0) (map g ps)"
    by (simp add: blendField_def g_def foldl_map)
  then have 1: "blendField f (Fin Wc) ps = Fin r" using r by simp
  have e1: "0 + sum_list (map T ps) = weightedAverage f ps"
    unfolding T_def weightedAverage_def W_def add_0 by (rule sum_list_divide)
  have e2: "n + 2 + 0 + length (map g ps) = 2 * length ps + 2" by (simp add: n_def)
  have "closeTo (2 * length ps + 2) (weightedAverage f ps) r" using cr unfolding e1 e2 .
  with Wc 1 show ?thesis by blast
qed

lemma known_fields: "list_all fieldsInRange (map snd KNOWN_REFERENCES)"
  by (simp add: KNOWN_REFERENCES_def fieldsInRange_def continuousFields_def lit_values)

lemma fallback_fields: "fieldsInRange unknownSourceProfile" "fieldsInRange screenshotProfile"
  by (simp_all add: unknownSourceProfile_def screenshotProfile_def fieldsInRange_def
      continuousFields_def lit_values)

lemma knownReference_fields:
  assumes "knownReference n = Some r"
  shows "r = PrototypeMember \<or> (\<exists>p. r = Profile p \<and> fieldsInRange p)"
proof (cases "map_of KNOWN_REFERENCES n")
  case None
  with assms show ?thesis by (simp add: knownReference_def split: if_splits)
next
  case (Some p)
  then have "(n, p) \<in> set KNOWN_REFERENCES" by (rule map_of_SomeD)
  then have "p \<in> set (map snd KNOWN_REFERENCES)" by force
  then have "fieldsInRange p" using known_fields by (simp only: list_all_iff)
  moreover have "r = Profile p" using assms Some by (simp add: knownReference_def)
  ultimately show ?thesis by blast
qed

lemma resolveInspiration_fields:
  assumes "rw \<in> set (resolveInspiration insp)"
  shows "fst rw = PrototypeMember \<or> (\<exists>p. fst rw = Profile p \<and> fieldsInRange p)"
  using assms knownReference_fields fallback_fields
  by (auto simp: resolveInspiration_def Let_def split: if_splits option.splits)

lemma ownProfiles_fields:
  "ownProfiles rs = Some ps \<Longrightarrow>
   (\<forall>rw \<in> set rs. fst rw = PrototypeMember \<or> (\<exists>p. fst rw = Profile p \<and> fieldsInRange p)) \<Longrightarrow>
   (\<forall>pw \<in> set ps. fieldsInRange (fst pw))"
proof (induction rs arbitrary: ps rule: ownProfiles.induct)
  case 1
  then show ?case by simp
next
  case (2 p w rest)
  then show ?case by (cases "ownProfiles rest") auto
next
  case (3 w rest)
  then show ?case by simp
qed

lemma resolved_fields:
  assumes "ownProfiles (resolveInspirations inspirations) = Some ps"
  shows "\<forall>pw \<in> set ps. fieldsInRange (fst pw)"
proof (rule ownProfiles_fields [OF assms], rule ballI)
  fix rw assume "rw \<in> set (resolveInspirations inspirations)"
  then obtain insp where "rw \<in> set (resolveInspiration insp)"
    by (auto simp: resolveInspirations_def)
  then show "fst rw = PrototypeMember \<or> (\<exists>p. fst rw = Profile p \<and> fieldsInRange p)"
    by (rule resolveInspiration_fields)
qed

lemma continuous_field_range:
  assumes "fieldsInRange p" and "f \<in> set continuousFields"
  shows "\<exists>v. f p = Fin v \<and> 2 powi (- 3) \<le> v \<and> v \<le> 2 powi 0"
proof -
  from assms have "case f p of Fin v \<Rightarrow> 1 / 8 \<le> v \<and> v \<le> 1 | _ \<Rightarrow> False"
    unfolding fieldsInRange_def list_all_iff by blast
  then show ?thesis by (cases "f p") simp_all
qed

lemma ownProfiles_weights:
  "ownProfiles rs = Some ps \<Longrightarrow> map snd rs = map snd ps"
proof (induction rs arbitrary: ps rule: ownProfiles.induct)
  case 1
  then show ?case by simp
next
  case (2 p w rest)
  then show ?case by (cases "ownProfiles rest") auto
next
  case (3 w rest)
  then show ?case by simp
qed

lemma totalWeightOf_own:
  assumes "ownProfiles rs = Some ps"
  shows "totalWeightOf rs = foldl fadd (Fin 0) (map snd ps)"
proof -
  have "totalWeightOf rs = foldl fadd (Fin 0) (map snd rs)"
    by (simp add: totalWeightOf_def foldl_map)
  then show ?thesis using ownProfiles_weights [OF assms] by simp
qed

lemma blended_field_close:
  assumes own: "ownProfiles (resolveInspirations inspirations) = Some ps"
    and ws: "list_all (\<lambda>pw. weightInRange (snd pw)) ps"
    and pos: "0 < (\<Sum>pw\<leftarrow>ps. valueOf (snd pw))"
    and len: "length ps \<le> 2 ^ 20"
    and f: "f \<in> set continuousFields"
  shows "withinRoundoff (2 * length ps + 2) (weightedAverage f ps)
           (blendField f (totalWeightOf (resolveInspirations inspirations)) ps)"
proof -
  have "list_all (\<lambda>pw. \<exists>v. f (fst pw) = Fin v \<and> 2 powi (- 3) \<le> v \<and> v \<le> 2 powi 0) ps"
    unfolding list_all_iff
  proof
    fix pw assume "pw \<in> set ps"
    then have "fieldsInRange (fst pw)" using resolved_fields [OF own] by blast
    then show "\<exists>v. f (fst pw) = Fin v \<and> 2 powi (- 3) \<le> v \<and> v \<le> 2 powi 0"
      using f by (rule continuous_field_range)
  qed
  from blendField_close [OF ws this pos len]
  obtain Wc r where "foldl fadd (Fin 0) (map snd ps) = Fin Wc"
    and "blendField f (Fin Wc) ps = Fin r"
    and "closeTo (2 * length ps + 2) (weightedAverage f ps) r" by blast
  then show ?thesis
    by (simp add: totalWeightOf_own [OF own] withinRoundoff_def)
qed

lemma example_density:
  assumes "density p1 = lit 0.2" and "density p2 = lit 0.8"
  shows "\<exists>b. blendProfiles [(Profile p1, Fin 1), (Profile p2, Fin 3)] = Inr b
           \<and> density b = Fin (2927339757790823 / 4503599627370496)"
proof -
  have t: "totalWeightOf [(Profile p1, Fin 1), (Profile p2, Fin 3)] = Fin 4"
    by (simp add: totalWeightOf_def binary64)
  have "blendField density (Fin 4) [(p1, Fin 1), (p2, Fin 3)]
          = Fin (2927339757790823 / 4503599627370496)"
    by (simp add: blendField_def assms lit_values binary64)
  then show ?thesis by (simp add: blendProfiles_def t Let_def)
qed

text \<open>
  Claim C5, as amended. When the inspirations resolve to at most \<open>2 ^ 20\<close> profiles
  whose weights are zero or between \<open>2 ^ (-300)\<close> and \<open>2 ^ 300\<close>, with a positive sum,
  the call returns and every continuous field of the blended profile is a finite
  number within \<open>2 * n + 2\<close> roundings of the weighted average
  \<open>sum (field_i * w_i) / W\<close> of the numbers blended: equal to it up to a relative error
  of \<open>(1 - 2 ^ (-53)) ^ (- (2 * n + 2)) - 1\<close>, not exactly. Two profiles of density 0.2 at
  weight 1 and 0.8 at weight 3 blend to density 0.6500000000000001, that is
  \<open>2927339757790823 / 2 ^ 52\<close>, the double next above the one nearest 0.65.
\<close>

theorem blend_weighted_average:
  "(ownProfiles (resolveInspirations inspirations) = Some ps
      \<and> list_all (\<lambda>pw. weightInRange (snd pw)) ps
      \<and> 0 < (\<Sum>pw\<leftarrow>ps. valueOf (snd pw)) \<and> length ps \<le> 2 ^ 20
    \<longrightarrow> (\<exists>b. deriveTasteFromInspirations inspirations = Inr b
          \<and> withinRoundoff (2 * length ps + 2) (weightedAverage abstraction ps) (abstraction b)
          \<and> withinRoundoff (2 * length ps + 2) (weightedAverage restraint ps) (restraint b)
          \<and> withinRoundoff (2 * length ps + 2) (weightedAverage density ps) (density b)
          \<and> withinRoundoff (2 * length ps + 2) (weightedAverage motion ps) (motion b)
          \<and> withinRoundoff (2 * length ps + 2) (weightedAverage contrast ps) (contrast b)
          \<and> withinRoundoff (2 * length ps + 2) (weightedAverage narrative ps) (narrative b)
          \<and> withinRoundoff (2 * length ps + 2) (weightedAverage typographyLooseness ps)
              (typographyLooseness b)
          \<and> withinRoundoff (2 * length ps + 2) (weightedAverage surfaceComplexity ps)
              (surfaceComplexity b)))
   \<and> (density p1 = lit 0.2 \<and> density p2 = lit 0.8
    \<longrightarrow> (\<exists>b. blendProfiles [(Profile p1, Fin 1), (Profile p2, Fin 3)] = Inr b
          \<and> density b = Fin (2927339757790823 / 4503599627370496)))"
proof (intro conjI impI)
  assume a: "ownProfiles (resolveInspirations inspirations) = Some ps
      \<and> list_all (\<lambda>pw. weightInRange (snd pw)) ps
      \<and> 0 < (\<Sum>pw\<leftarrow>ps. valueOf (snd pw)) \<and> length ps \<le> 2 ^ 20"
  then have own: "ownProfiles (resolveInspirations inspirations) = Some ps"
    and ws: "list_all (\<lambda>pw. weightInRange (snd pw)) ps"
    and pos: "0 < (\<Sum>pw\<leftarrow>ps. valueOf (snd pw))" and len: "length ps \<le> 2 ^ 20"
    by blast+
  have ne: "inspirations \<noteq> []"
    using own pos by (auto simp: resolveInspirations_def)
  note close = blended_field_close [OF own ws pos len]
  have "withinRoundoff (2 * length ps + 2) (weightedAverage abstraction ps)
           (blendField abstraction (totalWeightOf (resolveInspirations inspirations)) ps)"
    and "withinRoundoff (2 * length ps + 2) (weightedAverage restraint ps)
           (blendField restraint (totalWeightOf (resolveInspirations inspirations)) ps)"
    and "withinRoundoff (2 * length ps + 2) (weightedAverage density ps)
           (blendField density (totalWeightOf (resolveInspirations inspirations)) ps)"
    and "withinRoundoff (2 * length ps + 2) (weightedAverage motion ps)
           (blendField motion (totalWeightOf (resolveInspirations inspirations)) ps)"
    and "withinRoundoff (2 * length ps + 2) (weightedAverage contrast ps)
           (blendField contrast (totalWeightOf (resolveInspirations inspirations)) ps)"
    and "withinRoundoff (2 * length ps + 2) (weightedAverage narrative ps)
           (blendField narrative (totalWeightOf (resolveInspirations inspirations)) ps)"
    and "withinRoundoff (2 * length ps + 2) (weightedAverage typographyLooseness ps)
           (blendField typographyLooseness (totalWeightOf (resolveInspirations inspirations)) ps)"
    and "withinRoundoff (2 * length ps + 2) (weightedAverage surfaceComplexity ps)
           (blendField surfaceComplexity (totalWeightOf (resolveInspirations inspirations)) ps)"
    by (rule close, simp add: continuousFields_def)+
  then show "\<exists>b. deriveTasteFromInspirations inspirations = Inr b
          \<and> withinRoundoff (2 * length ps + 2) (weightedAverage abstraction ps) (abstraction b)
          \<and> withinRoundoff (2 * length ps + 2) (weightedAverage restraint ps) (restraint b)
          \<and> withinRoundoff (2 * length ps + 2) (weightedAverage density ps) (density b)
          \<and> withinRoundoff (2 * length ps + 2) (weightedAverage motion ps) (motion b)
          \<and> withinRoundoff (2 * length ps + 2) (weightedAverage contrast ps) (contrast b)
          \<and> withinRoundoff (2 * length ps + 2) (weightedAverage narrative ps) (narrative b)
          \<and> withinRoundoff (2 * length ps + 2) (weightedAverage typographyLooseness ps)
              (typographyLooseness b)
          \<and> withinRoundoff (2 * length ps + 2) (weightedAverage surfaceComplexity ps)
              (surfaceComplexity b)"
    using ne own by (simp add: deriveTasteFromInspirations_def blendProfiles_def Let_def)
next
  assume "density p1 = lit 0.2 \<and> density p2 = lit 0.8"
  then show "\<exists>b. blendProfiles [(Profile p1, Fin 1), (Profile p2, Fin 3)] = Inr b
          \<and> density b = Fin (2927339757790823 / 4503599627370496)"
    using example_density by blast
qed

lemma toLowerCase_lower [simp]:
  "toLowerCase ''linear'' = ''linear''" "toLowerCase ''notion'' = ''notion''"
  "toLowerCase ''vercel'' = ''vercel''" "toLowerCase ''airbnb'' = ''airbnb''"
  by (simp_all add: toLowerCase_def toLower_def isUpper_def)

lemma resolve_reference [simp]:
  "resolveInspiration (reference ''linear'' w) = [(Profile linearProfile, w)]"
  "resolveInspiration (reference ''notion'' w) = [(Profile notionProfile, w)]"
  "resolveInspiration (reference ''vercel'' w) = [(Profile vercelProfile, w)]"
  "resolveInspiration (reference ''airbnb'' w) = [(Profile airbnbProfile, w)]"
  by (simp_all add: resolveInspiration_def reference_def knownReference_def KNOWN_REFERENCES_def
      linearProfile_def notionProfile_def vercelProfile_def airbnbProfile_def)

lemma sample_density:
  "blendField density (Fin 4) [(linearProfile, Fin 1), (notionProfile, Fin 3)]
     = Fin (4953959590107545 / 9007199254740992)"
  by (simp add: blendField_def linearProfile_def notionProfile_def lit_values binary64)

lemma sample_total:
  "totalWeightOf [(Profile linearProfile, Fin 1), (Profile notionProfile, Fin 3)] = Fin 4"
  by (simp add: totalWeightOf_def binary64)

theorem blend_weighted_average_witness:
  "ownProfiles (resolveInspirations [reference ''linear'' (Fin 1), reference ''notion'' (Fin 3)])
     = Some [(linearProfile, Fin 1), (notionProfile, Fin 3)]
   \<and> list_all (\<lambda>pw. weightInRange (snd pw)) [(linearProfile, Fin 1), (notionProfile, Fin 3)]
   \<and> 0 < (\<Sum>pw\<leftarrow>[(linearProfile, Fin 1), (notionProfile, Fin 3)]. valueOf (snd pw))
   \<and> (\<exists>b. deriveTasteFromInspirations
              [reference ''linear'' (Fin 1), reference ''notion'' (Fin 3)] = Inr b
        \<and> withinRoundoff 6
             (weightedAverage density [(linearProfile, Fin 1), (notionProfile, Fin 3)])
             (density b))
   \<and> density (unknownSourceProfile\<lparr>density := lit 0.2\<rparr>) = lit 0.2
   \<and> density (unknownSourceProfile\<lparr>density := lit 0.8\<rparr>) = lit 0.8
   \<and> (\<exists>b. blendProfiles [(Profile (unknownSourceProfile\<lparr>density := lit 0.2\<rparr>), Fin 1),
                           (Profile (unknownSourceProfile\<lparr>density := lit 0.8\<rparr>), Fin 3)] = Inr b
        \<and> density b = Fin (2927339757790823 / 4503599627370496))"
proof -
  have r: "ownProfiles (resolveInspirations [reference ''linear'' (Fin 1), reference ''notion'' (Fin 3)])
     = Some [(linearProfile, Fin 1), (notionProfile, Fin 3)]"
    by (simp add: resolveInspirations_def)
  have w: "list_all (\<lambda>pw. weightInRange (snd pw)) [(linearProfile, Fin 1), (notionProfile, Fin 3)]"
    by (simp add: weightInRange_def)
  have s: "0 < (\<Sum>pw\<leftarrow>[(linearProfile, Fin 1), (notionProfile, Fin 3)]. valueOf (snd pw))"
    by (simp add: valueOf_def)
  have l: "length [(linearProfile, Fin 1), (notionProfile, Fin 3)] \<le> 2 ^ 20"
    and k: "2 * length [(linearProfile, Fin 1), (notionProfile, Fin 3)] + 2 = 6"
    by simp_all
  have d1: "density (unknownSourceProfile\<lparr>density := lit 0.2\<rparr>) = lit 0.2"
    and d2: "density (unknownSourceProfile\<lparr>density := lit 0.8\<rparr>) = lit 0.8"
    by simp_all
  note inst = blend_weighted_average
      [of "[reference ''linear'' (Fin 1), reference ''notion'' (Fin 3)]"
        "[(linearProfile, Fin 1), (notionProfile, Fin 3)]"
        "unknownSourceProfile\<lparr>density := lit 0.2\<rparr>" "unknownSourceProfile\<lparr>density := lit 0.8\<rparr>",
       unfolded k]
  have e1: "\<exists>b. deriveTasteFromInspirations
              [reference ''linear'' (Fin 1), reference ''notion'' (Fin 3)] = Inr b
        \<and> withinRoundoff 6
             (weightedAverage density [(linearProfile, Fin 1), (notionProfile, Fin 3)])
             (density b)"
    using inst r w s l by blast
  have e2: "\<exists>b. blendProfiles [(Profile (unknownSourceProfile\<lparr>density := lit 0.2\<rparr>), Fin 1),
                           (Profile (unknownSourceProfile\<lparr>density := lit 0.8\<rparr>), Fin 3)] = Inr b
        \<and> density b = Fin (2927339757790823 / 4503599627370496)"
    using inst d1 d2 by blast
  show ?thesis
    using r w s e1 d1 d2 e2 by blast
qed

lemma huge_weight: "hugeWeight = Fin (5010420900022432 * 2 ^ 971)"
  by (simp add: hugeWeight_def lit_def binary64)

lemma huge_total:
  "totalWeightOf [(Profile linearProfile, hugeWeight), (Profile notionProfile, hugeWeight)] = PosInf"
  unfolding huge_weight by (simp add: totalWeightOf_def binary64)

lemma huge_density:
  "blendField density PosInf [(linearProfile, hugeWeight), (notionProfile, hugeWeight)] = Fin 0"
  unfolding huge_weight
  by (simp add: blendField_def linearProfile_def notionProfile_def lit_values round64_zero)

text \<open>
  The claim as stated has the blended density of its example equal 0.65. The number
  returned is the double above: 0.6500000000000001. And the references linear at
  weight 1 and notion at weight 3 (densities 0.4 and 0.6) blend to density
  0.5499999999999999, which is neither the double nearest 0.55 nor the weighted average
  of the two doubles blended. With both at weight \<open>1e308\<close> the total weight overflows
  to infinity, every quotient \<open>weight / totalWeight\<close> is 0, and the blended density is 0.
\<close>

theorem blended_density_not_average:
  "(\<exists>b. blendProfiles [(Profile (unknownSourceProfile\<lparr>density := lit 0.2\<rparr>), Fin 1),
                        (Profile (unknownSourceProfile\<lparr>density := lit 0.8\<rparr>), Fin 3)] = Inr b
      \<and> density b = Fin (2927339757790823 / 4503599627370496)
      \<and> density b \<noteq> lit 0.65)
   \<and> lit 0.65 = Fin (5854679515581645 / 9007199254740992)
   \<and> (\<exists>b. deriveTasteFromInspirations
             [reference ''linear'' (Fin 1), reference ''notion'' (Fin 3)] = Inr b
      \<and> density b = Fin (4953959590107545 / 9007199254740992)
      \<and> density b \<noteq> Fin (weightedAverage density [(linearProfile, Fin 1), (notionProfile, Fin 3)])
      \<and> density b \<noteq> lit 0.55)
   \<and> weightedAverage density [(linearProfile, Fin 1), (notionProfile, Fin 3)]
       = 9907919180215091 / 18014398509481984
   \<and> (\<exists>b. deriveTasteFromInspirations
             [reference ''linear'' hugeWeight, reference ''notion'' hugeWeight] = Inr b
      \<and> density b = Fin 0)"
proof -
  have v: "lit 0.65 = Fin (5854679515581645 / 9007199254740992)"
    and v': "lit 0.55 = Fin (2476979795053773 / 4503599627370496)"
    by (simp_all add: lit_def binary64)
  have "\<exists>b. blendProfiles [(Profile (unknownSourceProfile\<lparr>density := lit 0.2\<rparr>), Fin 1),
                        (Profile (unknownSourceProfile\<lparr>density := lit 0.8\<rparr>), Fin 3)] = Inr b
      \<and> density b = Fin (2927339757790823 / 4503599627370496)"
    by (rule example_density) simp_all
  then have 1: "\<exists>b. blendProfiles [(Profile (unknownSourceProfile\<lparr>density := lit 0.2\<rparr>), Fin 1),
                        (Profile (unknownSourceProfile\<lparr>density := lit 0.8\<rparr>), Fin 3)] = Inr b
      \<and> density b = Fin (2927339757790823 / 4503599627370496)
      \<and> density b \<noteq> lit 0.65"
    unfolding v by auto
  have avg: "weightedAverage density [(linearProfile, Fin 1), (notionProfile, Fin 3)]
       = 9907919180215091 / 18014398509481984"
    by (simp add: weightedAverage_def valueOf_def linearProfile_def notionProfile_def lit_values)
  have "\<exists>b. deriveTasteFromInspirations
             [reference ''linear'' (Fin 1), reference ''notion'' (Fin 3)] = Inr b
      \<and> density b = Fin (4953959590107545 / 9007199254740992)"
    by (simp add: deriveTasteFromInspirations_def resolveInspirations_def blendProfiles_def
        sample_total sample_density Let_def)
  then have 2: "\<exists>b. deriveTasteFromInspirations
             [reference ''linear'' (Fin 1), reference ''notion'' (Fin 3)] = Inr b
      \<and> density b = Fin (4953959590107545 / 9007199254740992)
      \<and> density b \<noteq> Fin (weightedAverage density [(linearProfile, Fin 1), (notionProfile, Fin 3)])
      \<and> density b \<noteq> lit 0.55"
    unfolding avg v' by auto
  have 3: "\<exists>b. deriveTasteFromInspirations
             [reference ''linear'' hugeWeight, reference ''notion'' hugeWeight] = Inr b
      \<and> density b = Fin 0"
    by (simp add: deriveTasteFromInspirations_def resolveInspirations_def blendProfiles_def
        huge_total huge_density Let_def)
  from 1 v 2 avg 3 show ?thesis by blast
qed

lemma fgt_irrefl: "\<not> fgt a a"
  by (cases a) simp_all

lemma fgt_asym: "fgt a b \<Longrightarrow> \<not> fgt b a"
  by (cases a; cases b) simp_all

lemma addTemp_fields:
  "warm (addTemp c pw) = (if colorTemperature (fst pw) = Warm then fadd (warm c) (snd pw) else warm c)"
  "cool (addTemp c pw) = (if colorTemperature (fst pw) = Cool then fadd (cool c) (snd pw) else cool c)"
  "neutral (addTemp c pw)
     = (if colorTemperature (fst pw) = Neutral then fadd (neutral c) (snd pw) else neutral c)"
  by (cases "colorTemperature (fst pw)"; simp add: addTemp_def)+

lemma foldl_addTemp:
  "warm (foldl addTemp c ps)
     = foldl fadd (warm c) (map snd (filter (\<lambda>pw. colorTemperature (fst pw) = Warm) ps))
   \<and> cool (foldl addTemp c ps)
     = foldl fadd (cool c) (map snd (filter (\<lambda>pw. colorTemperature (fst pw) = Cool) ps))
   \<and> neutral (foldl addTemp c ps)
     = foldl fadd (neutral c) (map snd (filter (\<lambda>pw. colorTemperature (fst pw) = Neutral) ps))"
proof (induction ps arbitrary: c)
  case Nil
  then show ?case by simp
next
  case (Cons pw ps)
  show ?case
    by (simp add: Cons.IH addTemp_fields)
qed

lemma tempCounts_sums:
  "warm (tempCounts ps) = categoryWeight Warm ps"
  "cool (tempCounts ps) = categoryWeight Cool ps"
  "neutral (tempCounts ps) = categoryWeight Neutral ps"
  using foldl_addTemp [of "\<lparr> warm = Fin 0, cool = Fin 0, neutral = Fin 0 \<rparr>" ps]
  by (simp_all add: tempCounts_def categoryWeight_def)

lemma derive_temperature:
  "ownProfiles (resolveInspirations inspirations) = Some ps \<Longrightarrow> inspirations \<noteq> [] \<Longrightarrow>
   \<exists>b. deriveTasteFromInspirations inspirations = Inr b
      \<and> colorTemperature b = pickTemperature (tempCounts ps)"
  by (simp add: deriveTasteFromInspirations_def blendProfiles_def Let_def)

text \<open>
  Claim C6, as amended. The weight of each colour temperature is accumulated, in the
  arithmetic of numbers, and a temperature whose accumulated weight is strictly the
  greatest wins. On a tie for the greatest weight the order is: neutral beats cool,
  cool beats warm. A warm/cool tie gives cool, a neutral/warm tie gives neutral, a
  cool/neutral tie gives neutral, and a three-way tie gives neutral. The weights
  compared are the rounded sums: warm weights 0.1 and 0.7 accumulate to
  0.7999999999999999 and tie with one cool weight of 0.7999999999999999.
\<close>

theorem temperature_vote:
  "ownProfiles (resolveInspirations inspirations) = Some ps \<and> inspirations \<noteq> []
   \<longrightarrow> (\<exists>b. deriveTasteFromInspirations inspirations = Inr b \<and>
        (let w = categoryWeight Warm ps; c = categoryWeight Cool ps; n = categoryWeight Neutral ps
         in (fgt w c \<and> fgt w n \<longrightarrow> colorTemperature b = Warm)
          \<and> (fgt c w \<and> fgt c n \<longrightarrow> colorTemperature b = Cool)
          \<and> (fgt n w \<and> fgt n c \<longrightarrow> colorTemperature b = Neutral)
          \<and> (w = c \<and> fgt c n \<longrightarrow> colorTemperature b = Cool)
          \<and> (n = w \<and> fgt w c \<longrightarrow> colorTemperature b = Neutral)
          \<and> (c = n \<and> fgt n w \<longrightarrow> colorTemperature b = Neutral)
          \<and> (w = c \<and> c = n \<longrightarrow> colorTemperature b = Neutral)))"
proof
  assume a: "ownProfiles (resolveInspirations inspirations) = Some ps \<and> inspirations \<noteq> []"
  then obtain b where b: "deriveTasteFromInspirations inspirations = Inr b"
    and t: "colorTemperature b = pickTemperature (tempCounts ps)"
    using derive_temperature by blast
  have "let w = categoryWeight Warm ps; c = categoryWeight Cool ps; n = categoryWeight Neutral ps
         in (fgt w c \<and> fgt w n \<longrightarrow> colorTemperature b = Warm)
          \<and> (fgt c w \<and> fgt c n \<longrightarrow> colorTemperature b = Cool)
          \<and> (fgt n w \<and> fgt n c \<longrightarrow> colorTemperature b = Neutral)
          \<and> (w = c \<and> fgt c n \<longrightarrow> colorTemperature b = Cool)
          \<and> (n = w \<and> fgt w c \<longrightarrow> colorTemperature b = Neutral)
          \<and> (c = n \<and> fgt n w \<longrightarrow> colorTemperature b = Neutral)
          \<and> (w = c \<and> c = n \<longrightarrow> colorTemperature b = Neutral)"
    using fgt_asym fgt_irrefl
    by (auto simp: Let_def t pickTemperature_def tempCounts_sums)
  with b show "\<exists>b. deriveTasteFromInspirations inspirations = Inr b \<and>
        (let w = categoryWeight Warm ps; c = categoryWeight Cool ps; n = categoryWeight Neutral ps
         in (fgt w c \<and> fgt w n \<longrightarrow> colorTemperature b = Warm)
          \<and> (fgt c w \<and> fgt c n \<longrightarrow> colorTemperature b = Cool)
          \<and> (fgt n w \<and> fgt n c \<longrightarrow> colorTemperature b = Neutral)
          \<and> (w = c \<and> fgt c n \<longrightarrow> colorTemperature b = Cool)
          \<and> (n = w \<and> fgt w c \<longrightarrow> colorTemperature b = Neutral)
          \<and> (c = n \<and> fgt n w \<longrightarrow> colorTemperature b = Neutral)
          \<and> (w = c \<and> c = n \<longrightarrow> colorTemperature b = Neutral))"
    by blast
qed

lemma own_of_references:
  "ownProfiles (resolveInspirations [reference ''notion'' (Fin 1)]) = Some [(notionProfile, Fin 1)]"
  "ownProfiles (resolveInspirations [reference ''linear'' (Fin 1)]) = Some [(linearProfile, Fin 1)]"
  "ownProfiles (resolveInspirations [reference ''vercel'' (Fin 1)]) = Some [(vercelProfile, Fin 1)]"
  "ownProfiles (resolveInspirations [reference ''notion'' (Fin 1), reference ''linear'' (Fin 1)])
     = Some [(notionProfile, Fin 1), (linearProfile, Fin 1)]"
  "ownProfiles (resolveInspirations [reference ''vercel'' (Fin 1), reference ''notion'' (Fin 1)])
     = Some [(vercelProfile, Fin 1), (notionProfile, Fin 1)]"
  "ownProfiles (resolveInspirations [reference ''linear'' (Fin 1), reference ''vercel'' (Fin 1)])
     = Some [(linearProfile, Fin 1), (vercelProfile, Fin 1)]"
  "ownProfiles (resolveInspirations [reference ''notion'' (Fin 1), reference ''linear'' (Fin 1),
                                     reference ''vercel'' (Fin 1)])
     = Some [(notionProfile, Fin 1), (linearProfile, Fin 1), (vercelProfile, Fin 1)]"
  "ownProfiles (resolveInspirations [reference ''notion'' (lit 0.1), reference ''airbnb'' (lit 0.7),
                                     reference ''linear'' (lit 0.7999999999999999)])
     = Some [(notionProfile, lit 0.1), (airbnbProfile, lit 0.7),
             (linearProfile, lit 0.7999999999999999)]"
  by (simp_all add: resolveInspirations_def)

lemma sample_temperatures [simp]:
  "colorTemperature notionProfile = Warm" "colorTemperature linearProfile = Cool"
  "colorTemperature vercelProfile = Neutral" "colorTemperature airbnbProfile = Warm"
  by (simp_all add: notionProfile_def linearProfile_def vercelProfile_def airbnbProfile_def)

lemma rounded_tie:
  "categoryWeight Warm [(notionProfile, lit 0.1), (airbnbProfile, lit 0.7),
                        (linearProfile, lit 0.7999999999999999)]
     = Fin (7205759403792793 / 9007199254740992)"
  "categoryWeight Cool [(notionProfile, lit 0.1), (airbnbProfile, lit 0.7),
                        (linearProfile, lit 0.7999999999999999)]
     = Fin (7205759403792793 / 9007199254740992)"
  "categoryWeight Neutral [(notionProfile, lit 0.1), (airbnbProfile, lit 0.7),
                           (linearProfile, lit 0.7999999999999999)]
     = Fin 0"
  by (simp_all add: categoryWeight_def lit_def binary64)

theorem temperature_vote_witness:
  "colorTemperature (projr (deriveTasteFromInspirations [reference ''notion'' (Fin 1)])) = Warm
   \<and> colorTemperature (projr (deriveTasteFromInspirations [reference ''linear'' (Fin 1)])) = Cool
   \<and> colorTemperature (projr (deriveTasteFromInspirations [reference ''vercel'' (Fin 1)])) = Neutral
   \<and> colorTemperature (projr (deriveTasteFromInspirations
        [reference ''notion'' (Fin 1), reference ''linear'' (Fin 1)])) = Cool
   \<and> colorTemperature (projr (deriveTasteFromInspirations
        [reference ''vercel'' (Fin 1), reference ''notion'' (Fin 1)])) = Neutral
   \<and> colorTemperature (projr (deriveTasteFromInspirations
        [reference ''linear'' (Fin 1), reference ''vercel'' (Fin 1)])) = Neutral
   \<and> colorTemperature (projr (deriveTasteFromInspirations
        [reference ''notion'' (Fin 1), reference ''linear'' (Fin 1),
         reference ''vercel'' (Fin 1)])) = Neutral
   \<and> categoryWeight Warm [(notionProfile, lit 0.1), (airbnbProfile, lit 0.7),
                          (linearProfile, lit 0.7999999999999999)]
       = categoryWeight Cool [(notionProfile, lit 0.1), (airbnbProfile, lit 0.7),
                              (linearProfile, lit 0.7999999999999999)]
   \<and> colorTemperature (projr (deriveTasteFromInspirations
        [reference ''notion'' (lit 0.1), reference ''airbnb'' (lit 0.7),
         reference ''linear'' (lit 0.7999999999999999)])) = Cool"
proof -
  have "colorTemperature (projr (deriveTasteFromInspirations [reference ''notion'' (Fin 1)])) = Warm"
    using temperature_vote [of "[reference ''notion'' (Fin 1)]" "[(notionProfile, Fin 1)]"]
    by (auto simp: own_of_references Let_def categoryWeight_def)
  moreover
  have "colorTemperature (projr (deriveTasteFromInspirations [reference ''linear'' (Fin 1)])) = Cool"
    using temperature_vote [of "[reference ''linear'' (Fin 1)]" "[(linearProfile, Fin 1)]"]
    by (auto simp: own_of_references Let_def categoryWeight_def)
  moreover
  have "colorTemperature (projr (deriveTasteFromInspirations [reference ''vercel'' (Fin 1)])) = Neutral"
    using temperature_vote [of "[reference ''vercel'' (Fin 1)]" "[(vercelProfile, Fin 1)]"]
    by (auto simp: own_of_references Let_def categoryWeight_def)
  moreover
  have "colorTemperature (projr (deriveTasteFromInspirations
        [reference ''notion'' (Fin 1), reference ''linear'' (Fin 1)])) = Cool"
    using temperature_vote [of "[reference ''notion'' (Fin 1), reference ''linear'' (Fin 1)]"
        "[(notionProfile, Fin 1), (linearProfile, Fin 1)]"]
    by (auto simp: own_of_references Let_def categoryWeight_def)
  moreover
  have "colorTemperature (projr (deriveTasteFromInspirations
        [reference ''vercel'' (Fin 1), reference ''notion'' (Fin 1)])) = Neutral"
    using temperature_vote [of "[reference ''vercel'' (Fin 1), reference ''notion'' (Fin 1)]"
        "[(vercelProfile, Fin 1), (notionProfile, Fin 1)]"]
    by (auto simp: own_of_references Let_def categoryWeight_def)
  moreover
  have "colorTemperature (projr (deriveTasteFromInspirations
        [reference ''linear'' (Fin 1), reference ''vercel'' (Fin 1)])) = Neutral"
    using temperature_vote [of "[reference ''linear'' (Fin 1), reference ''vercel'' (Fin 1)]"
        "[(linearProfile, Fin 1), (vercelProfile, Fin 1)]"]
    by (auto simp: own_of_references Let_def categoryWeight_def)
  moreover
  have "colorTemperature (projr (deriveTasteFromInspirations
        [reference ''notion'' (Fin 1), reference ''linear'' (Fin 1),
         reference ''vercel'' (Fin 1)])) = Neutral"
    using temperature_vote [of "[reference ''notion'' (Fin 1), reference ''linear'' (Fin 1),
          reference ''vercel'' (Fin 1)]"
        "[(notionProfile, Fin 1), (linearProfile, Fin 1), (vercelProfile, Fin 1)]"]
    by (auto simp: own_of_references Let_def categoryWeight_def)
  moreover
  have "categoryWeight Warm [(notionProfile, lit 0.1), (airbnbProfile, lit 0.7),
                          (linearProfile, lit 0.7999999999999999)]
       = categoryWeight Cool [(notionProfile, lit 0.1), (airbnbProfile, lit 0.7),
                              (linearProfile, lit 0.7999999999999999)]"
    by (simp only: rounded_tie)
  moreover
  have "colorTemperature (projr (deriveTasteFromInspirations
        [reference ''notion'' (lit 0.1), reference ''airbnb'' (lit 0.7),
         reference ''linear'' (lit 0.7999999999999999)])) = Cool"
    using temperature_vote [of "[reference ''notion'' (lit 0.1), reference ''airbnb'' (lit 0.7),
          reference ''linear'' (lit 0.7999999999999999)]"
        "[(notionProfile, lit 0.1), (airbnbProfile, lit 0.7),
          (linearProfile, lit 0.7999999999999999)]"]
    unfolding own_of_references Let_def rounded_tie by auto
  ultimately show ?thesis by blast
qed

text \<open>
  The claim as stated gives a cool/neutral tie to cool. The code gives it to neutral:
  one cool reference and one neutral reference, each at weight 1.
\<close>

theorem cool_neutral_tie_is_neutral:
  "categoryWeight Cool [(linearProfile, Fin 1), (vercelProfile, Fin 1)] = Fin 1
   \<and> categoryWeight Neutral [(linearProfile, Fin 1), (vercelProfile, Fin 1)] = Fin 1
   \<and> categoryWeight Warm [(linearProfile, Fin 1), (vercelProfile, Fin 1)] = Fin 0
   \<and> (\<exists>b. deriveTasteFromInspirations
             [reference ''linear'' (Fin 1), reference ''vercel'' (Fin 1)] = Inr b
        \<and> colorTemperature b = Neutral \<and> colorTemperature b \<noteq> Cool)"
proof -
  have c: "categoryWeight Cool [(linearProfile, Fin 1), (vercelProfile, Fin 1)] = Fin 1"
    "categoryWeight Neutral [(linearProfile, Fin 1), (vercelProfile, Fin 1)] = Fin 1"
    "categoryWeight Warm [(linearProfile, Fin 1), (vercelProfile, Fin 1)] = Fin 0"
    by (simp_all add: categoryWeight_def)
  obtain b where b: "deriveTasteFromInspirations
             [reference ''linear'' (Fin 1), reference ''vercel'' (Fin 1)] = Inr b"
    and t: "colorTemperature b
              = pickTemperature (tempCounts [(linearProfile, Fin 1), (vercelProfile, Fin 1)])"
    using derive_temperature [OF own_of_references(6)] by blast
  have "colorTemperature b = Neutral"
    by (simp add: t pickTemperature_def tempCounts_sums c)
  with b c show ?thesis by auto
qed

text \<open>
  Claim C7. On the empty list \<open>deriveTasteFromInspirations\<close> throws the
  \<open>InvalidRequest\<close> error, before anything else.
\<close>

theorem deriveTaste_empty:
  "deriveTasteFromInspirations [] =
     Inl (McpError InvalidRequest ''At least one inspiration required'')"
  by (simp add: deriveTasteFromInspirations_def)

lemma resolve_unrecognized:
  "\<forall>i \<in> set inspirations.
      type' i \<notin> {''reference-name'', ''reference'', ''url'', ''screenshot''}
   \<Longrightarrow> resolveInspirations inspirations = []"
  by (induction inspirations) (simp_all add: resolveInspirations_def resolveInspiration_def)

text \<open>
  Claim C10, as amended. For a non-empty list in which no type is one of the four,
  the call does not throw: no profile contributes, the total weight is 0, and since
  the blending loop runs over no profile, no division takes place. The result is the
  initial profile: every continuous field is exactly 0, there are no motifs, and the
  colour temperature is neutral.
\<close>

theorem unrecognized_types_blend:
  "inspirations \<noteq> []
     \<and> (\<forall>i \<in> set inspirations.
           type' i \<notin> {''reference-name'', ''reference'', ''url'', ''screenshot''})
   \<longrightarrow> resolveInspirations inspirations = []
     \<and> totalWeightOf (resolveInspirations inspirations) = Fin 0
     \<and> deriveTasteFromInspirations inspirations =
         Inr \<lparr> abstraction = Fin 0, restraint = Fin 0, density = Fin 0, motion = Fin 0,
               contrast = Fin 0, narrative = Fin 0, motifPreference = [],
               typographyLooseness = Fin 0, colorTemperature = Neutral,
               surfaceComplexity = Fin 0 \<rparr>"
proof
  assume a: "inspirations \<noteq> []
     \<and> (\<forall>i \<in> set inspirations.
           type' i \<notin> {''reference-name'', ''reference'', ''url'', ''screenshot''})"
  then have r: "resolveInspirations inspirations = []"
    using resolve_unrecognized by blast
  show "resolveInspirations inspirations = []
     \<and> totalWeightOf (resolveInspirations inspirations) = Fin 0
     \<and> deriveTasteFromInspirations inspirations =
         Inr \<lparr> abstraction = Fin 0, restraint = Fin 0, density = Fin 0, motion = Fin 0,
               contrast = Fin 0, narrative = Fin 0, motifPreference = [],
               typographyLooseness = Fin 0, colorTemperature = Neutral,
               surfaceComplexity = Fin 0 \<rparr>"
    using a
    by (simp add: r deriveTasteFromInspirations_def blendProfiles_def totalWeightOf_def
        blendField_def collectMotifs_def tempCounts_def pickTemperature_def)
qed

theorem unrecognized_types_blend_witness:
  "unrecognized \<noteq> []
   \<and> list_all (\<lambda>i. type' i \<notin> {''reference-name'', ''reference'', ''url'', ''screenshot''})
        unrecognized
   \<and> deriveTasteFromInspirations unrecognized =
         Inr \<lparr> abstraction = Fin 0, restraint = Fin 0, density = Fin 0, motion = Fin 0,
               contrast = Fin 0, narrative = Fin 0, motifPreference = [],
               typographyLooseness = Fin 0, colorTemperature = Neutral,
               surfaceComplexity = Fin 0 \<rparr>"
proof -
  have h: "unrecognized \<noteq> []
     \<and> (\<forall>i \<in> set unrecognized.
           type' i \<notin> {''reference-name'', ''reference'', ''url'', ''screenshot''})"
    by (simp add: unrecognized_def)
  show ?thesis
    using unrecognized_types_blend [of unrecognized] h by (simp add: list_all_iff)
qed

text \<open>
  The claim as stated has every continuous field computed as 0/0. At an input of one
  unrecognized type the density returned is the finite number 0, inside the interval
  from 0 to 1, and not the outcome of a division by zero, which is NaN.
\<close>

theorem unrecognized_type_density_zero:
  "density (projr (deriveTasteFromInspirations
      [\<lparr> type' = ''image'', value' = ''hero.png'', weight = Some (Fin 1) \<rparr>])) = Fin 0
   \<and> density (projr (deriveTasteFromInspirations
      [\<lparr> type' = ''image'', value' = ''hero.png'', weight = Some (Fin 1) \<rparr>])) \<noteq> fdiv (Fin 0) (Fin 0)
   \<and> fdiv (Fin 0) (Fin 0) = NaN"
  by (simp add: deriveTasteFromInspirations_def resolveInspirations_def resolveInspiration_def
      blendProfiles_def totalWeightOf_def blendField_def)

end
